theory Spec2Isabelle
  imports Complex_Main
begin

section \<open>The TypeScript wrapper and its binding layer\<close>

text \<open>
  The development follows \<^verbatim>\<open>typescript/src/index.ts\<close> (the class \<^verbatim>\<open>JSBSim\<close>) and
  \<^verbatim>\<open>typescript/src/jsbsim_binding.cpp\<close> (the class \<^verbatim>\<open>JSBSimFDMExec\<close>).  A JavaScript
  \<^verbatim>\<open>number\<close> and a C++ \<^verbatim>\<open>double\<close> are modelled by the real number they denote, so the
  values are finite: NaN and the infinities are outside the model.  Comparisons of
  doubles are exact, and where index.ts itself adds, multiplies or divides, the result is
  rounded to the nearest double (\<open>round_double\<close> below).  A C++ \<^verbatim>\<open>int\<close> is an \<open>int\<close>; no
  arithmetic is done on it here.
\<close>

subsection \<open>Doubles\<close>

text \<open>The number of binary digits of a natural number.\<close>

fun bit_length :: "nat \<Rightarrow> nat" where
  "bit_length n = (if n = 0 then 0 else Suc (bit_length (n div 2)))"

declare bit_length.simps [simp del]

text \<open>
  The binade of a real \<open>x\<close> other than 0: the integer \<open>e\<close> with
  \<open>2 powi e \<le> \<bar>x\<bar> < 2 powi (e + 1)\<close>, computed from the digits of the integer part of
  \<open>\<bar>x\<bar>\<close> or of its inverse.
\<close>

definition binade :: "real \<Rightarrow> int" where
  "binade x =
     (if 1 \<le> \<bar>x\<bar> then int (bit_length (nat \<lfloor>\<bar>x\<bar>\<rfloor>)) - 1
      else - int (bit_length (nat (\<lceil>1 / \<bar>x\<bar>\<rceil> - 1))))"

text \<open>The nearest integer, a tie going to the even one.\<close>

definition round_half_even :: "real \<Rightarrow> int" where
  "round_half_even y =
     (let n = \<lfloor>y\<rfloor>; r = y - of_int n
      in if r < 1 / 2 then n else if 1 / 2 < r then n + 1 else if even n then n else n + 1)"

text \<open>
  IEEE 754 binary64 rounding of a real, to nearest with ties to even: doubles in the
  binade \<open>e\<close> are the multiples of \<open>2 powi (e - 52)\<close>, and below the binade \<open>- 1022\<close>
  (the subnormal range) the spacing stays that of \<open>- 1022\<close>.  The result is the double
  JavaScript computes as long as it does not overflow, that is, for arguments up to
  \<open>max_double\<close> in absolute value.
\<close>

definition round_double :: "real \<Rightarrow> real" where
  "round_double x =
     (if x = 0 then 0
      else let ulp = 2 powi (max (binade x) (- 1022) - 52)
           in ulp * of_int (round_half_even (x / ulp)))"



subsection \<open>Exceptions\<close>

text \<open>
  \<^verbatim>\<open>BaseError\<close>, \<^verbatim>\<open>TrimFailureError\<close> and \<^verbatim>\<open>GeographicError\<close> are the classes of
  index.ts; \<open>Error\<close> is JavaScript's own.  The argument is the message.
\<close>

datatype js_error =
    Error string
  | BaseError string
  | TrimFailureError string
  | GeographicError string

text \<open>The name an error object carries, and what a template string makes of the object.\<close>

fun error_name :: "js_error \<Rightarrow> string" where
  "error_name (Error m) = ''Error''"
| "error_name (BaseError m) = ''BaseError''"
| "error_name (TrimFailureError m) = ''TrimFailureError''"
| "error_name (GeographicError m) = ''GeographicError''"

fun error_message :: "js_error \<Rightarrow> string" where
  "error_message (Error m) = m"
| "error_message (BaseError m) = m"
| "error_message (TrimFailureError m) = m"
| "error_message (GeographicError m) = m"

definition error_toString :: "js_error \<Rightarrow> string" where
  "error_toString e =
     (if error_message e = [] then error_name e
      else error_name e @ '': '' @ error_message e)"

definition not_initialized :: js_error where
  "not_initialized = BaseError ''JSBSim not initialized. Call init() first.''"

subsection \<open>The native executive, as the binding sees it\<close>

text \<open>
  The class \<^verbatim>\<open>FGFDMExec\<close> of the engine is not part of the wrapper's sources: the binding
  only calls it.  It is a parameter here, a record of the member functions the binding
  forwards to, over an arbitrary type \<open>'f\<close> of executive states.  The types are the ones
  the binding's own signatures fix: \<^verbatim>\<open>bool Run()\<close>, \<^verbatim>\<open>double GetPropertyValue(string)\<close>,
  \<^verbatim>\<open>void SetPropertyValue(string, double)\<close>, and so on.  A member that changes the
  executive returns the new state.  \<^verbatim>\<open>DoTrim\<close> returns \<^verbatim>\<open>void\<close>, so a failure can only
  leave it as an exception: its result is \<open>Inl\<close> of that exception or \<open>Inr ()\<close>.
\<close>

datatype trim_exception = TrimFailure

record 'f FGFDMExec =
  Run :: "'f \<Rightarrow> bool \<times> 'f"
  RunIC :: "'f \<Rightarrow> bool \<times> 'f"
  LoadModel :: "string \<Rightarrow> bool \<Rightarrow> 'f \<Rightarrow> bool \<times> 'f"
  LoadScript :: "string \<Rightarrow> real \<Rightarrow> string \<Rightarrow> 'f \<Rightarrow> bool \<times> 'f"
  SetEnginePath :: "string \<Rightarrow> 'f \<Rightarrow> bool \<times> 'f"
  SetAircraftPath :: "string \<Rightarrow> 'f \<Rightarrow> bool \<times> 'f"
  SetSystemsPath :: "string \<Rightarrow> 'f \<Rightarrow> bool \<times> 'f"
  SetOutputPath :: "string \<Rightarrow> 'f \<Rightarrow> bool \<times> 'f"
  GetPropertyValue :: "string \<Rightarrow> 'f \<Rightarrow> real"
  SetPropertyValue :: "string \<Rightarrow> real \<Rightarrow> 'f \<Rightarrow> 'f"
  DoTrim :: "int \<Rightarrow> 'f \<Rightarrow> (trim_exception + unit) \<times> 'f"
  Hold :: "'f \<Rightarrow> 'f"
  Resume :: "'f \<Rightarrow> 'f"
  Holding :: "'f \<Rightarrow> bool"
  ResetToInitialConditions :: "int \<Rightarrow> 'f \<Rightarrow> 'f"
  GetSimTime :: "'f \<Rightarrow> real"
  GetDeltaT :: "'f \<Rightarrow> real"
  GetNumEngines :: "'f \<Rightarrow> int"

subsection \<open>The binding class \<^verbatim>\<open>JSBSimFDMExec\<close> (jsbsim\_binding.cpp)\<close>

text \<open>
  Every member forwards to the native executive it holds (\<^verbatim>\<open>fdm_\<close>).  The functions are
  named \<open>fdm_\<close> plus the member's name, which is how index.ts calls them
  (\<^verbatim>\<open>this.fdm.run()\<close>).
\<close>

definition fdm_run :: "'f FGFDMExec \<Rightarrow> 'f \<Rightarrow> bool \<times> 'f" where
  "fdm_run N f = Run N f"

definition fdm_runIC :: "'f FGFDMExec \<Rightarrow> 'f \<Rightarrow> bool \<times> 'f" where
  "fdm_runIC N f = RunIC N f"

definition fdm_loadModel :: "'f FGFDMExec \<Rightarrow> string \<Rightarrow> bool \<Rightarrow> 'f \<Rightarrow> bool \<times> 'f" where
  "fdm_loadModel N model add_model_to_path f = LoadModel N model add_model_to_path f"

definition fdm_loadScript ::
  "'f FGFDMExec \<Rightarrow> string \<Rightarrow> real \<Rightarrow> string \<Rightarrow> 'f \<Rightarrow> bool \<times> 'f" where
  "fdm_loadScript N script delta_t initfile f = LoadScript N script delta_t initfile f"

definition fdm_setEnginePath :: "'f FGFDMExec \<Rightarrow> string \<Rightarrow> 'f \<Rightarrow> bool \<times> 'f" where
  "fdm_setEnginePath N path f = SetEnginePath N path f"

definition fdm_setAircraftPath :: "'f FGFDMExec \<Rightarrow> string \<Rightarrow> 'f \<Rightarrow> bool \<times> 'f" where
  "fdm_setAircraftPath N path f = SetAircraftPath N path f"

definition fdm_setSystemsPath :: "'f FGFDMExec \<Rightarrow> string \<Rightarrow> 'f \<Rightarrow> bool \<times> 'f" where
  "fdm_setSystemsPath N path f = SetSystemsPath N path f"

definition fdm_setOutputPath :: "'f FGFDMExec \<Rightarrow> string \<Rightarrow> 'f \<Rightarrow> bool \<times> 'f" where
  "fdm_setOutputPath N path f = SetOutputPath N path f"

definition fdm_getPropertyValue :: "'f FGFDMExec \<Rightarrow> string \<Rightarrow> 'f \<Rightarrow> real" where
  "fdm_getPropertyValue N property f = GetPropertyValue N property f"

definition fdm_setPropertyValue :: "'f FGFDMExec \<Rightarrow> string \<Rightarrow> real \<Rightarrow> 'f \<Rightarrow> 'f" where
  "fdm_setPropertyValue N property v f = SetPropertyValue N property v f"

definition fdm_doTrim :: "'f FGFDMExec \<Rightarrow> int \<Rightarrow> 'f \<Rightarrow> (trim_exception + unit) \<times> 'f" where
  "fdm_doTrim N mode f = DoTrim N mode f"

definition fdm_hold :: "'f FGFDMExec \<Rightarrow> 'f \<Rightarrow> 'f" where
  "fdm_hold N f = Hold N f"

definition fdm_resume :: "'f FGFDMExec \<Rightarrow> 'f \<Rightarrow> 'f" where
  "fdm_resume N f = Resume N f"

definition fdm_holding :: "'f FGFDMExec \<Rightarrow> 'f \<Rightarrow> bool" where
  "fdm_holding N f = Holding N f"

text \<open>\<^verbatim>\<open>void resetToInitialConditions(int mode = 0)\<close>: index.ts passes no mode.\<close>

definition fdm_resetToInitialConditions :: "'f FGFDMExec \<Rightarrow> int \<Rightarrow> 'f \<Rightarrow> 'f" where
  "fdm_resetToInitialConditions N mode f = ResetToInitialConditions N mode f"

definition fdm_getSimTime :: "'f FGFDMExec \<Rightarrow> 'f \<Rightarrow> real" where
  "fdm_getSimTime N f = GetSimTime N f"

definition fdm_getDeltaT :: "'f FGFDMExec \<Rightarrow> 'f \<Rightarrow> real" where
  "fdm_getDeltaT N f = GetDeltaT N f"

text \<open>\<^verbatim>\<open>getPropulsion().getNumEngines()\<close>, the only use index.ts makes of the propulsion model.\<close>

definition fdm_getNumEngines :: "'f FGFDMExec \<Rightarrow> 'f \<Rightarrow> int" where
  "fdm_getNumEngines N f = GetNumEngines N f"

text \<open>
  Calls a caller can make on the binding between initialisation and a reset, and the
  executive after a sequence of them.
\<close>

datatype call =
    CallRun
  | CallHold
  | CallResume
  | CallSetPropertyValue string real
  | CallDoTrim int

fun perform :: "'f FGFDMExec \<Rightarrow> call \<Rightarrow> 'f \<Rightarrow> 'f" where
  "perform N CallRun f = snd (fdm_run N f)"
| "perform N CallHold f = fdm_hold N f"
| "perform N CallResume f = fdm_resume N f"
| "perform N (CallSetPropertyValue property v) f = fdm_setPropertyValue N property v f"
| "perform N (CallDoTrim mode) f = snd (fdm_doTrim N mode f)"

fun perform_all :: "'f FGFDMExec \<Rightarrow> call list \<Rightarrow> 'f \<Rightarrow> 'f" where
  "perform_all N [] f = f"
| "perform_all N (c # cs) f = perform_all N cs (perform N c f)"

subsection \<open>The Emscripten module\<close>

text \<open>
  The interface \<^verbatim>\<open>JSBSimModule\<close> of index.ts: the two helpers installed by pre.js, which
  write to the module's virtual file system and may throw, and the constructor of the
  bound class \<^verbatim>\<open>FGFDMExec\<close>.  \<open>'m\<close> is the state of the module.
\<close>

record ('m, 'f) JSBSimModule =
  loadDataFiles :: "(string \<times> string) list \<Rightarrow> 'm \<Rightarrow> js_error + 'm"
  setupJSBSimPaths :: "string \<Rightarrow> 'm \<Rightarrow> js_error + 'm"
  new_FGFDMExec :: "string \<Rightarrow> 'm \<Rightarrow> js_error + 'f"

text \<open>
  \<^verbatim>\<open>JSBSimModuleFactory\<close> as index.ts defines it: a stub that always throws.  The built
  module replaces it, so \<open>init\<close> below takes the factory's outcome as an argument.
\<close>

definition JSBSimModuleFactory :: "js_error + 'm" where
  "JSBSimModuleFactory =
     Inl (Error ''JSBSim WebAssembly module not available. Build the WASM module first.'')"

record JSBSimConfig =
  rootDir :: "string option"
  aircraftPath :: "string option"
  enginePath :: "string option"
  systemsPath :: "string option"
  outputPath :: "string option"
  dataFiles :: "(string \<times> string) list option"

text \<open>JavaScript's truthiness of an optional string: defined and not empty.\<close>

definition truthy :: "string option \<Rightarrow> bool" where
  "truthy s = (case s of None \<Rightarrow> False | Some t \<Rightarrow> t \<noteq> [])"

subsection \<open>The class \<^verbatim>\<open>JSBSim\<close> (index.ts)\<close>

record ('m, 'f) JSBSim =
  module :: "'m option"
  fdm :: "'f option"

text \<open>\<^verbatim>\<open>new JSBSim()\<close>: both fields are \<^verbatim>\<open>null\<close>.\<close>

definition new_JSBSim :: "('m, 'f) JSBSim" where
  "new_JSBSim = \<lparr> module = None, fdm = None \<rparr>"

text \<open>
  A method takes the instance and returns what it returns or throws, together with the
  instance afterwards: an exception does not undo the writes made before it.  An
  \<^verbatim>\<open>async\<close> method is modelled by its settled promise: rejected is \<open>Inl\<close>.
\<close>

type_synonym ('a, 'm, 'f) js_method = "('m, 'f) JSBSim \<Rightarrow> (js_error + 'a) \<times> ('m, 'f) JSBSim"

definition ret :: "'a \<Rightarrow> ('a, 'm, 'f) js_method" where
  "ret a = (\<lambda>j. (Inr a, j))"

definition seq :: "('a, 'm, 'f) js_method \<Rightarrow> ('a \<Rightarrow> ('b, 'm, 'f) js_method) \<Rightarrow> ('b, 'm, 'f) js_method" where
  "seq m k = (\<lambda>j. case m j of (Inl e, j') \<Rightarrow> (Inl e, j') | (Inr a, j') \<Rightarrow> k a j')"

text \<open>\<^verbatim>\<open>for (let i = 0; i < n; i++) body(i)\<close>, with \<open>n\<close> read once before the loop.\<close>

fun for_each :: "int list \<Rightarrow> (int \<Rightarrow> (unit, 'm, 'f) js_method) \<Rightarrow> (unit, 'm, 'f) js_method" where
  "for_each [] body = ret ()"
| "for_each (i # is) body = seq (body i) (\<lambda>_. for_each is body)"

definition indices :: "int \<Rightarrow> int list" where
  "indices n = map int [0..<nat n]"

text \<open>
  The steps of \<^verbatim>\<open>init\<close> after the module is there, inside its \<^verbatim>\<open>try\<close>.  The four path
  setters report through a boolean, which \<^verbatim>\<open>init\<close> drops; like every member of the
  executive but \<^verbatim>\<open>DoTrim\<close>, they are taken not to throw.
\<close>

definition configure_paths :: "'f FGFDMExec \<Rightarrow> JSBSimConfig \<Rightarrow> 'f \<Rightarrow> 'f" where
  "configure_paths N config f0 =
     (let f1 = (if truthy (aircraftPath config)
                then snd (fdm_setAircraftPath N (the (aircraftPath config)) f0) else f0);
          f2 = (if truthy (enginePath config)
                then snd (fdm_setEnginePath N (the (enginePath config)) f1) else f1);
          f3 = (if truthy (systemsPath config)
                then snd (fdm_setSystemsPath N (the (systemsPath config)) f2) else f2);
          f4 = (if truthy (outputPath config)
                then snd (fdm_setOutputPath N (the (outputPath config)) f3) else f3)
      in f4)"

definition init_body ::
  "('m, 'f) JSBSimModule \<Rightarrow> 'f FGFDMExec \<Rightarrow> js_error + 'm \<Rightarrow> JSBSimConfig \<Rightarrow> (unit, 'm, 'f) js_method" where
  "init_body M N factory config j =
     (case factory of
        Inl e \<Rightarrow> (Inl e, j)
      | Inr m0 \<Rightarrow>
          (case (case dataFiles config of
                   None \<Rightarrow> Inr m0
                 | Some files \<Rightarrow> if length files > 0 then loadDataFiles M files m0 else Inr m0) of
             Inl e \<Rightarrow> (Inl e, j\<lparr>module := Some m0\<rparr>)
           | Inr m1 \<Rightarrow>
               (case (if truthy (rootDir config)
                      then setupJSBSimPaths M (the (rootDir config)) m1 else Inr m1) of
                  Inl e \<Rightarrow> (Inl e, j\<lparr>module := Some m1\<rparr>)
                | Inr m2 \<Rightarrow>
                    (case new_FGFDMExec M (if truthy (rootDir config) then the (rootDir config) else []) m2 of
                       Inl e \<Rightarrow> (Inl e, j\<lparr>module := Some m2\<rparr>)
                     | Inr f0 \<Rightarrow>
                         (Inr (), j\<lparr>module := Some m2, fdm := Some (configure_paths N config f0)\<rparr>)))))"

text \<open>
  \<^verbatim>\<open>init\<close>: whatever the body throws is caught and thrown again as a \<^verbatim>\<open>BaseError\<close>; the
  fields written before the exception stay written.
\<close>

definition init ::
  "('m, 'f) JSBSimModule \<Rightarrow> 'f FGFDMExec \<Rightarrow> js_error + 'm \<Rightarrow> JSBSimConfig \<Rightarrow> (unit, 'm, 'f) js_method" where
  "init M N factory config j =
     (case init_body M N factory config j of
        (Inl e, j') \<Rightarrow> (Inl (BaseError (''Failed to initialize JSBSim: '' @ error_toString e)), j')
      | (Inr u, j') \<Rightarrow> (Inr u, j'))"

text \<open>
  The instances on which no \<^verbatim>\<open>init\<close> has completed: a new instance, and what a failed
  \<^verbatim>\<open>init\<close> leaves of such an instance.
\<close>

inductive init_not_completed ::
  "('m, 'f) JSBSimModule \<Rightarrow> 'f FGFDMExec \<Rightarrow> ('m, 'f) JSBSim \<Rightarrow> bool"
  for M :: "('m, 'f) JSBSimModule" and N :: "'f FGFDMExec" where
  fresh: "init_not_completed M N new_JSBSim"
| failed: "init_not_completed M N j \<Longrightarrow> init M N factory config j = (Inl e, j') \<Longrightarrow>
           init_not_completed M N j'"

code_pred init_not_completed .

text \<open>A call that throws the error of an instance that is not initialised and changes nothing.\<close>

definition throws_not_initialized :: "('a, 'm, 'f) js_method \<Rightarrow> ('m, 'f) JSBSim \<Rightarrow> bool" where
  "throws_not_initialized m j = (m j = (Inl not_initialized, j))"

definition getFDM :: "('f, 'm, 'f) js_method" where
  "getFDM j = (case fdm j of None \<Rightarrow> (Inl not_initialized, j) | Some f \<Rightarrow> (Inr f, j))"

definition getModule :: "('m, 'm, 'f) js_method" where
  "getModule j = (case module j of None \<Rightarrow> (Inl not_initialized, j) | Some m \<Rightarrow> (Inr m, j))"

definition loadAircraft :: "'f FGFDMExec \<Rightarrow> string \<Rightarrow> bool \<Rightarrow> (bool, 'm, 'f) js_method" where
  "loadAircraft N aircraftName addToPath j =
     (case fdm j of
        None \<Rightarrow> (Inl not_initialized, j)
      | Some f \<Rightarrow>
          (case fdm_loadModel N aircraftName addToPath f of
             (ok, f') \<Rightarrow> (Inr ok, j\<lparr>fdm := Some f'\<rparr>)))"

definition runScript :: "'f FGFDMExec \<Rightarrow> string \<Rightarrow> real \<Rightarrow> string \<Rightarrow> (bool, 'm, 'f) js_method" where
  "runScript N scriptPath deltaT initFile j =
     (case fdm j of
        None \<Rightarrow> (Inl not_initialized, j)
      | Some f \<Rightarrow>
          (case fdm_loadScript N scriptPath deltaT initFile f of
             (ok, f') \<Rightarrow> (Inr ok, j\<lparr>fdm := Some f'\<rparr>)))"

definition step :: "'f FGFDMExec \<Rightarrow> (bool, 'm, 'f) js_method" where
  "step N j =
     (case fdm j of
        None \<Rightarrow> (Inl not_initialized, j)
      | Some f \<Rightarrow> (case fdm_run N f of (ok, f') \<Rightarrow> (Inr ok, j\<lparr>fdm := Some f'\<rparr>)))"

text \<open>
  The loop of \<^verbatim>\<open>run\<close>:
  \<^verbatim>\<open>while (this.fdm.getSimTime() < endTime) { if (!this.fdm.run()) break; ... }\<close>.
  Nothing bounds the number of rounds, so the loop is a partial function: \<open>None\<close> is
  the loop that never ends.  The loop test compares two doubles, which is exact.  The
  \<^verbatim>\<open>realTime\<close> branch only waits on a timer; other tasks that could touch the executive
  during the wait are outside the model.
\<close>

partial_function (option) run_loop :: "'f FGFDMExec \<Rightarrow> real \<Rightarrow> 'f \<Rightarrow> 'f option" where
  "run_loop N endTime f =
     (if fdm_getSimTime N f < endTime
      then (case fdm_run N f of (ok, f') \<Rightarrow> if \<not> ok then Some f' else run_loop N endTime f')
      else Some f)"

text \<open>
  \<^verbatim>\<open>run\<close>: the end time is the sum \<^verbatim>\<open>startTime + duration\<close> as JavaScript computes it, a
  double.
\<close>

definition run ::
  "'f FGFDMExec \<Rightarrow> real \<Rightarrow> bool \<Rightarrow> ('m, 'f) JSBSim \<Rightarrow> ((js_error + unit) \<times> ('m, 'f) JSBSim) option" where
  "run N duration realTime j =
     (case fdm j of
        None \<Rightarrow> Some (Inl not_initialized, j)
      | Some f \<Rightarrow>
          (let startTime = fdm_getSimTime N f;
               endTime = round_double (startTime + duration);
               deltaT = fdm_getDeltaT N f
           in map_option (\<lambda>f'. (Inr (), j\<lparr>fdm := Some f'\<rparr>)) (run_loop N endTime f)))"

text \<open>The executive after \<open>k\<close> calls of the binding's \<^verbatim>\<open>run()\<close>, whatever they returned.\<close>

fun after_steps :: "'f FGFDMExec \<Rightarrow> nat \<Rightarrow> 'f \<Rightarrow> 'f" where
  "after_steps N 0 f = f"
| "after_steps N (Suc k) f = after_steps N k (snd (fdm_run N f))"

definition getTime :: "'f FGFDMExec \<Rightarrow> (real, 'm, 'f) js_method" where
  "getTime N j =
     (case fdm j of None \<Rightarrow> (Inl not_initialized, j) | Some f \<Rightarrow> (Inr (fdm_getSimTime N f), j))"

definition setProperty :: "'f FGFDMExec \<Rightarrow> string \<Rightarrow> real \<Rightarrow> (unit, 'm, 'f) js_method" where
  "setProperty N property v j =
     (case fdm j of
        None \<Rightarrow> (Inl not_initialized, j)
      | Some f \<Rightarrow> (Inr (), j\<lparr>fdm := Some (fdm_setPropertyValue N property v f)\<rparr>))"

definition getProperty :: "'f FGFDMExec \<Rightarrow> string \<Rightarrow> (real, 'm, 'f) js_method" where
  "getProperty N property j =
     (case fdm j of
        None \<Rightarrow> (Inl not_initialized, j)
      | Some f \<Rightarrow> (Inr (fdm_getPropertyValue N property f), j))"

text \<open>\<^verbatim>\<open>reset\<close> calls \<^verbatim>\<open>resetToInitialConditions()\<close> with the binding's default mode 0.\<close>

definition reset :: "'f FGFDMExec \<Rightarrow> (unit, 'm, 'f) js_method" where
  "reset N j =
     (case fdm j of
        None \<Rightarrow> (Inl not_initialized, j)
      | Some f \<Rightarrow> (Inr (), j\<lparr>fdm := Some (fdm_resetToInitialConditions N 0 f)\<rparr>))"

subsection \<open>Control methods of \<^verbatim>\<open>JSBSim\<close>\<close>

text \<open>
  An engine index reaches a property path through a template string.  Indices are
  integers here, and \<open>number_toString\<close> is JavaScript's decimal rendering of an integer.
\<close>

fun digits :: "nat \<Rightarrow> string" where
  "digits n =
     (if n < 10 then [''0123456789'' ! n]
      else digits (n div 10) @ [''0123456789'' ! (n mod 10)])"

definition number_toString :: "int \<Rightarrow> string" where
  "number_toString i = (if i < 0 then ''-'' @ digits (nat (- i)) else digits (nat i))"

definition indexed :: "string \<Rightarrow> int \<Rightarrow> string \<Rightarrow> string" where
  "indexed before i after = before @ number_toString i @ after"

definition setElevator :: "'f FGFDMExec \<Rightarrow> real \<Rightarrow> (unit, 'm, 'f) js_method" where
  "setElevator N v = setProperty N ''fcs/elevator-cmd-norm'' v"

definition setAileron :: "'f FGFDMExec \<Rightarrow> real \<Rightarrow> (unit, 'm, 'f) js_method" where
  "setAileron N v = setProperty N ''fcs/aileron-cmd-norm'' v"

definition setRudder :: "'f FGFDMExec \<Rightarrow> real \<Rightarrow> (unit, 'm, 'f) js_method" where
  "setRudder N v = setProperty N ''fcs/rudder-cmd-norm'' v"

definition setFlaps :: "'f FGFDMExec \<Rightarrow> real \<Rightarrow> (unit, 'm, 'f) js_method" where
  "setFlaps N v = setProperty N ''fcs/flap-cmd-norm'' v"

definition setSpeedbrakes :: "'f FGFDMExec \<Rightarrow> real \<Rightarrow> (unit, 'm, 'f) js_method" where
  "setSpeedbrakes N v = setProperty N ''fcs/speedbrake-cmd-norm'' v"

definition setSpoilers :: "'f FGFDMExec \<Rightarrow> real \<Rightarrow> (unit, 'm, 'f) js_method" where
  "setSpoilers N v = setProperty N ''fcs/spoiler-cmd-norm'' v"

definition setPitchTrim :: "'f FGFDMExec \<Rightarrow> real \<Rightarrow> (unit, 'm, 'f) js_method" where
  "setPitchTrim N v = setProperty N ''fcs/pitch-trim-cmd-norm'' v"

definition setRollTrim :: "'f FGFDMExec \<Rightarrow> real \<Rightarrow> (unit, 'm, 'f) js_method" where
  "setRollTrim N v = setProperty N ''fcs/roll-trim-cmd-norm'' v"

definition setYawTrim :: "'f FGFDMExec \<Rightarrow> real \<Rightarrow> (unit, 'm, 'f) js_method" where
  "setYawTrim N v = setProperty N ''fcs/yaw-trim-cmd-norm'' v"

definition setThrottle :: "'f FGFDMExec \<Rightarrow> int \<Rightarrow> real \<Rightarrow> (unit, 'm, 'f) js_method" where
  "setThrottle N engineIndex v =
     setProperty N (indexed ''fcs/throttle-cmd-norm['' engineIndex '']'') v"

definition setMixture :: "'f FGFDMExec \<Rightarrow> int \<Rightarrow> real \<Rightarrow> (unit, 'm, 'f) js_method" where
  "setMixture N engineIndex v =
     setProperty N (indexed ''fcs/mixture-cmd-norm['' engineIndex '']'') v"

definition setPropellerAdvance :: "'f FGFDMExec \<Rightarrow> int \<Rightarrow> real \<Rightarrow> (unit, 'm, 'f) js_method" where
  "setPropellerAdvance N engineIndex v =
     setProperty N (indexed ''fcs/advance-cmd-norm['' engineIndex '']'') v"

definition setAllThrottles :: "'f FGFDMExec \<Rightarrow> real \<Rightarrow> (unit, 'm, 'f) js_method" where
  "setAllThrottles N v =
     seq getFDM (\<lambda>f.
       let numEngines = fdm_getNumEngines N f
       in for_each (indices numEngines) (\<lambda>i. setThrottle N i v))"

definition setLeftBrake :: "'f FGFDMExec \<Rightarrow> real \<Rightarrow> (unit, 'm, 'f) js_method" where
  "setLeftBrake N v = setProperty N ''fcs/left-brake-cmd-norm'' v"

definition setRightBrake :: "'f FGFDMExec \<Rightarrow> real \<Rightarrow> (unit, 'm, 'f) js_method" where
  "setRightBrake N v = setProperty N ''fcs/right-brake-cmd-norm'' v"

definition setCenterBrake :: "'f FGFDMExec \<Rightarrow> real \<Rightarrow> (unit, 'm, 'f) js_method" where
  "setCenterBrake N v = setProperty N ''fcs/center-brake-cmd-norm'' v"

definition setBrakes :: "'f FGFDMExec \<Rightarrow> real \<Rightarrow> (unit, 'm, 'f) js_method" where
  "setBrakes N v = seq (setLeftBrake N v) (\<lambda>_. setRightBrake N v)"

definition setSteering :: "'f FGFDMExec \<Rightarrow> real \<Rightarrow> (unit, 'm, 'f) js_method" where
  "setSteering N v = setProperty N ''fcs/steer-cmd-norm'' v"

definition setLandingGear :: "'f FGFDMExec \<Rightarrow> real \<Rightarrow> (unit, 'm, 'f) js_method" where
  "setLandingGear N v = setProperty N ''gear/gear-cmd-norm'' v"

subsection \<open>State getters of \<^verbatim>\<open>JSBSim\<close>\<close>

text \<open>
  A getter that returns an object literal is modelled by the tuple of the literal's
  fields, in the order the literal lists (and evaluates) them.
\<close>

definition getPosition :: "'f FGFDMExec \<Rightarrow> (real \<times> real \<times> real, 'm, 'f) js_method" where
  "getPosition N =
     seq (getProperty N ''position/lat-gc-deg'') (\<lambda>latitude.
     seq (getProperty N ''position/long-gc-deg'') (\<lambda>longitude.
     seq (getProperty N ''position/h-sl-ft'') (\<lambda>altitude.
     ret (latitude, longitude, altitude))))"

definition getLatitude :: "'f FGFDMExec \<Rightarrow> (real, 'm, 'f) js_method" where
  "getLatitude N = getProperty N ''position/lat-gc-deg''"

definition getLongitude :: "'f FGFDMExec \<Rightarrow> (real, 'm, 'f) js_method" where
  "getLongitude N = getProperty N ''position/long-gc-deg''"

definition getAltitude :: "'f FGFDMExec \<Rightarrow> (real, 'm, 'f) js_method" where
  "getAltitude N = getProperty N ''position/h-sl-ft''"

definition getAltitudeAGL :: "'f FGFDMExec \<Rightarrow> (real, 'm, 'f) js_method" where
  "getAltitudeAGL N = getProperty N ''position/h-agl-ft''"

definition getAttitude :: "'f FGFDMExec \<Rightarrow> (real \<times> real \<times> real, 'm, 'f) js_method" where
  "getAttitude N =
     seq (getProperty N ''attitude/phi-deg'') (\<lambda>roll.
     seq (getProperty N ''attitude/theta-deg'') (\<lambda>pitch.
     seq (getProperty N ''attitude/psi-deg'') (\<lambda>yaw.
     ret (roll, pitch, yaw))))"

definition getRoll :: "'f FGFDMExec \<Rightarrow> (real, 'm, 'f) js_method" where
  "getRoll N = getProperty N ''attitude/phi-deg''"

definition getPitch :: "'f FGFDMExec \<Rightarrow> (real, 'm, 'f) js_method" where
  "getPitch N = getProperty N ''attitude/theta-deg''"

definition getHeading :: "'f FGFDMExec \<Rightarrow> (real, 'm, 'f) js_method" where
  "getHeading N = getProperty N ''attitude/psi-deg''"

definition getVelocity :: "'f FGFDMExec \<Rightarrow> (real \<times> real \<times> real, 'm, 'f) js_method" where
  "getVelocity N =
     seq (getProperty N ''velocities/u-fps'') (\<lambda>u.
     seq (getProperty N ''velocities/v-fps'') (\<lambda>v.
     seq (getProperty N ''velocities/w-fps'') (\<lambda>w.
     ret (u, v, w))))"

definition getGroundSpeed :: "'f FGFDMExec \<Rightarrow> (real, 'm, 'f) js_method" where
  "getGroundSpeed N = getProperty N ''velocities/vg-fps''"

definition getCalibratedAirspeed :: "'f FGFDMExec \<Rightarrow> (real, 'm, 'f) js_method" where
  "getCalibratedAirspeed N = getProperty N ''velocities/vc-kts''"

definition getTrueAirspeed :: "'f FGFDMExec \<Rightarrow> (real, 'm, 'f) js_method" where
  "getTrueAirspeed N = getProperty N ''velocities/vtrue-kts''"

definition getMachNumber :: "'f FGFDMExec \<Rightarrow> (real, 'm, 'f) js_method" where
  "getMachNumber N = getProperty N ''velocities/mach''"

text \<open>\<^verbatim>\<open>x * 180 / Math.PI\<close>: a product and a quotient of doubles, \<^verbatim>\<open>Math.PI\<close> being the double next to \<open>pi\<close>.\<close>

definition to_degrees :: "real \<Rightarrow> real" where
  "to_degrees x = round_double (round_double (x * 180) / round_double pi)"

definition getRollRate :: "'f FGFDMExec \<Rightarrow> (real, 'm, 'f) js_method" where
  "getRollRate N = seq (getProperty N ''velocities/p-rad_sec'') (\<lambda>p. ret (to_degrees p))"

definition getPitchRate :: "'f FGFDMExec \<Rightarrow> (real, 'm, 'f) js_method" where
  "getPitchRate N = seq (getProperty N ''velocities/q-rad_sec'') (\<lambda>q. ret (to_degrees q))"

definition getYawRate :: "'f FGFDMExec \<Rightarrow> (real, 'm, 'f) js_method" where
  "getYawRate N = seq (getProperty N ''velocities/r-rad_sec'') (\<lambda>r. ret (to_degrees r))"

definition getAngularRates :: "'f FGFDMExec \<Rightarrow> (real \<times> real \<times> real, 'm, 'f) js_method" where
  "getAngularRates N =
     seq (getProperty N ''velocities/p-rad_sec'') (\<lambda>p.
     seq (getProperty N ''velocities/q-rad_sec'') (\<lambda>q.
     seq (getProperty N ''velocities/r-rad_sec'') (\<lambda>r.
     ret (to_degrees p, to_degrees q, to_degrees r))))"

definition getAngleOfAttack :: "'f FGFDMExec \<Rightarrow> (real, 'm, 'f) js_method" where
  "getAngleOfAttack N = getProperty N ''aero/alpha-deg''"

definition getSideslipAngle :: "'f FGFDMExec \<Rightarrow> (real, 'm, 'f) js_method" where
  "getSideslipAngle N = getProperty N ''aero/beta-deg''"

definition getDynamicPressure :: "'f FGFDMExec \<Rightarrow> (real, 'm, 'f) js_method" where
  "getDynamicPressure N = getProperty N ''aero/qbar-psf''"

subsection \<open>Engine, gear, surface, atmosphere and force getters\<close>

definition getEngineThrust :: "'f FGFDMExec \<Rightarrow> int \<Rightarrow> (real, 'm, 'f) js_method" where
  "getEngineThrust N engineIndex =
     getProperty N (indexed ''propulsion/engine['' engineIndex '']/thrust-lbs'')"

text \<open>\<^verbatim>\<open>let totalThrust = 0; for (...) totalThrust += this.getEngineThrust(i);\<close>\<close>

fun sum_each ::
  "int list \<Rightarrow> (int \<Rightarrow> (real, 'm, 'f) js_method) \<Rightarrow> real \<Rightarrow> (real, 'm, 'f) js_method" where
  "sum_each [] body totalThrust = ret totalThrust"
| "sum_each (i # is) body totalThrust =
     seq (body i) (\<lambda>x. sum_each is body (round_double (totalThrust + x)))"

definition getTotalThrust :: "'f FGFDMExec \<Rightarrow> (real, 'm, 'f) js_method" where
  "getTotalThrust N =
     seq getFDM (\<lambda>f.
       let numEngines = fdm_getNumEngines N f
       in sum_each (indices numEngines) (getEngineThrust N) 0)"

definition getFuelFlowRate :: "'f FGFDMExec \<Rightarrow> int \<Rightarrow> (real, 'm, 'f) js_method" where
  "getFuelFlowRate N engineIndex =
     getProperty N (indexed ''propulsion/engine['' engineIndex '']/fuel-flow-rate-gph'')"

definition getTotalFuel :: "'f FGFDMExec \<Rightarrow> (real, 'm, 'f) js_method" where
  "getTotalFuel N = getProperty N ''propulsion/total-fuel-lbs''"

definition isEngineRunning :: "'f FGFDMExec \<Rightarrow> int \<Rightarrow> (bool, 'm, 'f) js_method" where
  "isEngineRunning N engineIndex =
     seq (getProperty N (indexed ''propulsion/engine['' engineIndex '']/set-running''))
       (\<lambda>x. ret (x > 0))"

definition setEngineRunning :: "'f FGFDMExec \<Rightarrow> int \<Rightarrow> bool \<Rightarrow> (unit, 'm, 'f) js_method" where
  "setEngineRunning N engineIndex running =
     setProperty N (indexed ''propulsion/engine['' engineIndex '']/set-running'')
       (if running then 1 else 0)"

definition startAllEngines :: "'f FGFDMExec \<Rightarrow> (unit, 'm, 'f) js_method" where
  "startAllEngines N =
     seq getFDM (\<lambda>f.
       let numEngines = fdm_getNumEngines N f
       in for_each (indices numEngines) (\<lambda>i. setEngineRunning N i True))"

definition stopAllEngines :: "'f FGFDMExec \<Rightarrow> (unit, 'm, 'f) js_method" where
  "stopAllEngines N =
     seq getFDM (\<lambda>f.
       let numEngines = fdm_getNumEngines N f
       in for_each (indices numEngines) (\<lambda>i. setEngineRunning N i False))"

definition isOnGround :: "'f FGFDMExec \<Rightarrow> (bool, 'm, 'f) js_method" where
  "isOnGround N = seq (getProperty N ''gear/wow'') (\<lambda>x. ret (x > 0))"

definition getLandingGearPosition :: "'f FGFDMExec \<Rightarrow> (real, 'm, 'f) js_method" where
  "getLandingGearPosition N = getProperty N ''gear/gear-pos-norm''"

definition isLandingGearDown :: "'f FGFDMExec \<Rightarrow> (bool, 'm, 'f) js_method" where
  "isLandingGearDown N = seq (getLandingGearPosition N) (\<lambda>x. ret (x > 0.99))"

definition isLandingGearUp :: "'f FGFDMExec \<Rightarrow> (bool, 'm, 'f) js_method" where
  "isLandingGearUp N = seq (getLandingGearPosition N) (\<lambda>x. ret (x < 0.01))"

definition getElevatorPosition :: "'f FGFDMExec \<Rightarrow> (real, 'm, 'f) js_method" where
  "getElevatorPosition N = getProperty N ''fcs/elevator-pos-norm''"

text \<open>The aileron getter reads the command, as the source's comment says it means to.\<close>

definition getAileronPosition :: "'f FGFDMExec \<Rightarrow> (real, 'm, 'f) js_method" where
  "getAileronPosition N = getProperty N ''fcs/aileron-cmd-norm''"

definition getRudderPosition :: "'f FGFDMExec \<Rightarrow> (real, 'm, 'f) js_method" where
  "getRudderPosition N = getProperty N ''fcs/rudder-pos-norm''"

definition getFlapsPosition :: "'f FGFDMExec \<Rightarrow> (real, 'm, 'f) js_method" where
  "getFlapsPosition N = getProperty N ''fcs/flap-pos-norm''"

definition getSpeedbrakesPosition :: "'f FGFDMExec \<Rightarrow> (real, 'm, 'f) js_method" where
  "getSpeedbrakesPosition N = getProperty N ''fcs/speedbrake-pos-norm''"

definition getAtmosphericConditions ::
  "'f FGFDMExec \<Rightarrow> (real \<times> real \<times> real \<times> real, 'm, 'f) js_method" where
  "getAtmosphericConditions N =
     seq (getProperty N ''atmosphere/T-R'') (\<lambda>temperature.
     seq (getProperty N ''atmosphere/P-psf'') (\<lambda>pressure.
     seq (getProperty N ''atmosphere/rho-slugs_ft3'') (\<lambda>density.
     seq (getProperty N ''atmosphere/wind-mag-fps'') (\<lambda>windSpeed.
     ret (temperature, pressure, density, windSpeed)))))"

definition getWindComponents :: "'f FGFDMExec \<Rightarrow> (real \<times> real \<times> real, 'm, 'f) js_method" where
  "getWindComponents N =
     seq (getProperty N ''atmosphere/wind-north-fps'') (\<lambda>north.
     seq (getProperty N ''atmosphere/wind-east-fps'') (\<lambda>east.
     seq (getProperty N ''atmosphere/wind-down-fps'') (\<lambda>down.
     ret (north, east, down))))"

definition getAerodynamicForces :: "'f FGFDMExec \<Rightarrow> (real \<times> real \<times> real, 'm, 'f) js_method" where
  "getAerodynamicForces N =
     seq (getProperty N ''forces/fbx-aero-lbs'') (\<lambda>x.
     seq (getProperty N ''forces/fby-aero-lbs'') (\<lambda>y.
     seq (getProperty N ''forces/fbz-aero-lbs'') (\<lambda>z.
     ret (x, y, z))))"

definition getAerodynamicMoments :: "'f FGFDMExec \<Rightarrow> (real \<times> real \<times> real, 'm, 'f) js_method" where
  "getAerodynamicMoments N =
     seq (getProperty N ''moments/l-aero-lbsft'') (\<lambda>roll.
     seq (getProperty N ''moments/m-aero-lbsft'') (\<lambda>pitch.
     seq (getProperty N ''moments/n-aero-lbsft'') (\<lambda>yaw.
     ret (roll, pitch, yaw))))"

definition getPropulsionForces :: "'f FGFDMExec \<Rightarrow> (real \<times> real \<times> real, 'm, 'f) js_method" where
  "getPropulsionForces N =
     seq (getProperty N ''forces/fbx-prop-lbs'') (\<lambda>x.
     seq (getProperty N ''forces/fby-prop-lbs'') (\<lambda>y.
     seq (getProperty N ''forces/fbz-prop-lbs'') (\<lambda>z.
     ret (x, y, z))))"

text \<open>
  \<^verbatim>\<open>getAircraftState\<close>.  Its loop pushes one throttle position and one
  \<^verbatim>\<open>{running, thrust}\<close> pair per engine; \<open>collect_each\<close> gathers what each round adds.
\<close>

fun collect_each ::
  "int list \<Rightarrow> (int \<Rightarrow> ('a, 'm, 'f) js_method) \<Rightarrow> 'a list \<Rightarrow> ('a list, 'm, 'f) js_method" where
  "collect_each [] body pushed = ret pushed"
| "collect_each (i # is) body pushed = seq (body i) (\<lambda>x. collect_each is body (pushed @ [x]))"

type_synonym aircraft_state =
  "real \<times> (real \<times> real \<times> real) \<times> (real \<times> real \<times> real) \<times> (real \<times> real \<times> real)
   \<times> (real \<times> real \<times> real \<times> real list) \<times> (real \<times> bool) \<times> (bool \<times> real) list"

definition getAircraftState :: "'f FGFDMExec \<Rightarrow> (aircraft_state, 'm, 'f) js_method" where
  "getAircraftState N =
     seq getFDM (\<lambda>f.
       let numEngines = fdm_getNumEngines N f
       in seq (collect_each (indices numEngines)
                 (\<lambda>i. seq (getProperty N (indexed ''fcs/throttle-pos-norm['' i '']'')) (\<lambda>throttle.
                       seq (isEngineRunning N i) (\<lambda>running.
                       seq (getEngineThrust N i) (\<lambda>thrust.
                       ret (throttle, (running, thrust)))))) [])
          (\<lambda>pushed.
             let throttles = map fst pushed; engines = map snd pushed
             in seq (getTime N) (\<lambda>time.
                seq (getPosition N) (\<lambda>position.
                seq (getAttitude N) (\<lambda>attitude.
                seq (getGroundSpeed N) (\<lambda>groundSpeed.
                seq (getCalibratedAirspeed N) (\<lambda>airspeed.
                seq (getMachNumber N) (\<lambda>mach.
                seq (getElevatorPosition N) (\<lambda>elevator.
                seq (getAileronPosition N) (\<lambda>aileron.
                seq (getRudderPosition N) (\<lambda>rudder.
                seq (getLandingGearPosition N) (\<lambda>gear_position.
                seq (isOnGround N) (\<lambda>onGround.
                ret (time, position, attitude, (groundSpeed, airspeed, mach),
                     (elevator, aileron, rudder, throttles),
                     (gear_position, onGround), engines))))))))))))))"

section \<open>The executive behind the binding\<close>

text \<open>
  The engine that \<^verbatim>\<open>fdm_\<close> points to is not among the wrapper's sources.  Where a
  property is decided by the engine and not by the wrapper, the engine is the one the
  specification describes; every definition of this section is modelled from it and
  says which sentences it follows.  What the specification leaves to other components
  (the loader, the initial-condition solver, the seven physical models, the trim
  targets) is a parameter.
\<close>

subsection \<open>Property bus\<close>

type_synonym property_bus = "string \<rightharpoonup> real"

text \<open>
  Modelled from the spec: the write of the Property Bus (section 4.1), whose code, the
  engine's property manager, is missing.  "\<^verbatim>\<open>set(path, value)\<close> creates-or-updates a node";
  an indexed path is an ordinary node told apart by its name.
\<close>

definition bus_set :: "string \<Rightarrow> real \<Rightarrow> property_bus \<Rightarrow> property_bus" where
  "bus_set path v b = b(path \<mapsto> v)"

text \<open>
  Modelled from the spec: the read of the Property Bus (section 4.1), missing with the
  property manager.  "\<^verbatim>\<open>get(path)\<close> returns the current scalar or a defined not-found
  signal distinguishable from a valid zero": the signal is \<open>None\<close>.
\<close>

definition bus_get :: "property_bus \<Rightarrow> string \<Rightarrow> real option" where
  "bus_get b path = b path"

text \<open>
  Modelled from the spec: the existence check of the Property Bus (section 4.1), missing
  with the property manager.  "\<^verbatim>\<open>exists(path)\<close> is a pure query."
\<close>

definition bus_exists :: "property_bus \<Rightarrow> string \<Rightarrow> bool" where
  "bus_exists b path = (b path \<noteq> None)"

subsection \<open>State of the executive\<close>

text \<open>
  Modelled from the spec: the states of the FDM Executive (section 4.11), whose code is
  missing: "States: Unloaded, Loaded, Initialized, Running, Held".
\<close>

datatype exec_state = Unloaded | Loaded | Initialized | Running | Held

text \<open>
  Modelled from the spec: the data of section 3 that the missing executive owns or
  mediates: its state, the aircraft definition ("owned by the FDM Executive for the
  duration one aircraft is loaded"), the flight condition it starts from, the state
  vector, the property bus and the simulation clock ("current simulation time, fixed
  timestep").
\<close>

record ('d, 'c, 's) executive =
  status :: exec_state
  aircraft :: "'d option"
  flight_condition :: 'c
  state_vector :: 's
  bus :: property_bus
  sim_time :: real
  delta_t :: real

text \<open>
  Modelled from the spec: the collaborators of section 6 and the components of section
  4 that the missing executive calls.  The loader "returns a fully parsed Aircraft
  Definition ... or fails with a Load error"; the initial-condition solver "writes the
  full State Vector" or "fails ... if the specification is inconsistent"; the flight
  condition it is given is "human-specified", which a caller can only do through the
  property bus (the repository's example writes \<^verbatim>\<open>ic/h-sl-ft\<close>, \<^verbatim>\<open>ic/vc-kts\<close> and
  \<^verbatim>\<open>ic/gamma-deg\<close> before \<^verbatim>\<open>runIC()\<close>), so \<open>read_condition\<close> reads it off the bus, over
  the condition the executive starts from; each physical
  model computes one step from the definition, the timestep and the current state; the
  trim solver's adjustment, residual, tolerance and iteration cap are those of section
  4.10.  \<open>missing_value\<close> is the number the engine hands to the binding for a path
  without a node: the binding's \<^verbatim>\<open>getPropertyValue\<close> returns a \<^verbatim>\<open>double\<close> for every path,
  and nothing in the sources says which.
\<close>

record ('d, 'c, 's) collaborators =
  load_definition :: "string \<Rightarrow> 'd option"
  solve_ic :: "'d \<Rightarrow> 'c \<Rightarrow> 's option"
  read_condition :: "property_bus \<Rightarrow> 'c \<Rightarrow> 'c"
  atmosphere :: "'d \<Rightarrow> real \<Rightarrow> 's \<times> property_bus \<Rightarrow> 's \<times> property_bus"
  mass_balance :: "'d \<Rightarrow> real \<Rightarrow> 's \<times> property_bus \<Rightarrow> 's \<times> property_bus"
  aerodynamics :: "'d \<Rightarrow> real \<Rightarrow> 's \<times> property_bus \<Rightarrow> 's \<times> property_bus"
  propulsion :: "'d \<Rightarrow> real \<Rightarrow> 's \<times> property_bus \<Rightarrow> 's \<times> property_bus"
  ground_reactions :: "'d \<Rightarrow> real \<Rightarrow> 's \<times> property_bus \<Rightarrow> 's \<times> property_bus"
  propagate :: "'d \<Rightarrow> real \<Rightarrow> 's \<times> property_bus \<Rightarrow> 's \<times> property_bus"
  auxiliary :: "'d \<Rightarrow> real \<Rightarrow> 's \<times> property_bus \<Rightarrow> 's \<times> property_bus"
  engine_count :: "'d \<Rightarrow> nat"
  trim_adjust :: "int \<Rightarrow> 's \<times> property_bus \<Rightarrow> 's \<times> property_bus"
  trim_residual :: "int \<Rightarrow> 's \<times> property_bus \<Rightarrow> real"
  trim_tolerance :: real
  trim_iteration_cap :: nat
  missing_value :: real

text \<open>
  Modelled from the spec: a new executive, missing with the engine.  It is in the state
  Unloaded, with no definition, an empty bus and the clock at zero.
\<close>

definition exec_new :: "'c \<Rightarrow> 's \<Rightarrow> real \<Rightarrow> ('d, 'c, 's) executive" where
  "exec_new c sv h =
     \<lparr> status = Unloaded, aircraft = None, flight_condition = c, state_vector = sv,
       bus = Map.empty, sim_time = 0, delta_t = h \<rparr>"

subsection \<open>One frame\<close>

text \<open>
  Modelled from the spec: the frame ordering of section 4.12, missing with the
  executive's loop: "Atmosphere, Mass Balance, Aerodynamics, Propulsion, Ground
  Reactions, Propagate, Auxiliary", each working on the output of the one before.
\<close>

definition frame_models ::
  "('d, 'c, 's) collaborators \<Rightarrow> 'd \<Rightarrow> real \<Rightarrow> 's \<times> property_bus \<Rightarrow> 's \<times> property_bus" where
  "frame_models P d h w =
     auxiliary P d h (propagate P d h (ground_reactions P d h (propulsion P d h
       (aerodynamics P d h (mass_balance P d h (atmosphere P d h w))))))"

text \<open>
  Modelled from the spec: one completed frame of the missing executive.  The models
  run in their order and the clock is "advanced once per completed frame", by the
  "fixed timestep".
\<close>

definition frame ::
  "('d, 'c, 's) collaborators \<Rightarrow> 'd \<Rightarrow> ('d, 'c, 's) executive \<Rightarrow> ('d, 'c, 's) executive" where
  "frame P d x =
     (case frame_models P d (delta_t x) (state_vector x, bus x) of
        (sv, b) \<Rightarrow> x\<lparr>state_vector := sv, bus := b, sim_time := sim_time x + delta_t x\<rparr>)"

subsection \<open>Operations of the executive\<close>

text \<open>
  Modelled from the spec: \<^verbatim>\<open>loadModel(name) -> success:boolean\<close> (section 6) of the missing
  executive, with the transition "Unloaded to Loaded on successful aircraft-definition
  load (fails with Load error on malformed/missing definition, remaining Unloaded)" and
  the definition "replaced wholesale when a new aircraft is loaded".  A failed load
  changes nothing.  The search paths are part of the loader.
\<close>

definition exec_load ::
  "('d, 'c, 's) collaborators \<Rightarrow> string \<Rightarrow> bool \<Rightarrow> ('d, 'c, 's) executive
   \<Rightarrow> bool \<times> ('d, 'c, 's) executive" where
  "exec_load P name add_to_path x =
     (case load_definition P name of
        None \<Rightarrow> (False, x)
      | Some d \<Rightarrow> (True, x\<lparr>aircraft := Some d, status := Loaded\<rparr>))"

text \<open>
  Modelled from the spec: \<^verbatim>\<open>runInitialCondition() -> success:boolean\<close> of the missing
  executive, "Loaded to Initialized on successful initial-condition application"; an
  inconsistent condition is "rejected before any state mutation".  The spec also
  applies it after a reset, which leaves the executive Initialized, so these are the
  two states in which the solver runs; in any other state the call is refused and
  changes nothing.  The condition is the one that the property bus holds at the call.
\<close>

definition exec_run_ic ::
  "('d, 'c, 's) collaborators \<Rightarrow> ('d, 'c, 's) executive \<Rightarrow> bool \<times> ('d, 'c, 's) executive" where
  "exec_run_ic P x =
     (if status x = Loaded \<or> status x = Initialized
      then (case aircraft x of
              None \<Rightarrow> (False, x)
            | Some d \<Rightarrow>
                (case solve_ic P d (read_condition P (bus x) (flight_condition x)) of
                   None \<Rightarrow> (False, x)
                 | Some sv \<Rightarrow> (True, x\<lparr>state_vector := sv, status := Initialized\<rparr>)))
      else (False, x))"

text \<open>
  Modelled from the spec: \<^verbatim>\<open>run() -> advanced:boolean\<close> of the missing executive.
  "\<^verbatim>\<open>run()\<close> is a no-op returning a not-advanced signal while Held"; otherwise "one call
  advances exactly one fixed-size timestep" and the executive is Running.  The spec
  does not say what \<^verbatim>\<open>run()\<close> does before initialisation: here it is a no-op that
  reports no advance.
\<close>

definition exec_run ::
  "('d, 'c, 's) collaborators \<Rightarrow> ('d, 'c, 's) executive \<Rightarrow> bool \<times> ('d, 'c, 's) executive" where
  "exec_run P x =
     (if status x = Held then (False, x)
      else if status x = Initialized \<or> status x = Running
      then (case aircraft x of
              None \<Rightarrow> (False, x)
            | Some d \<Rightarrow> (True, (frame P d x)\<lparr>status := Running\<rparr>))
      else (False, x))"

text \<open>
  Modelled from the spec: \<^verbatim>\<open>hold()\<close> of the missing executive, "Initialized/Running to
  Held on explicit hold (freezes the clock and suspends model stepping, but property
  reads remain valid)".  In any other state the call changes nothing.
\<close>

definition exec_hold :: "('d, 'c, 's) executive \<Rightarrow> ('d, 'c, 's) executive" where
  "exec_hold x =
     (if status x = Initialized \<or> status x = Running then x\<lparr>status := Held\<rparr> else x)"

text \<open>
  Modelled from the spec: \<^verbatim>\<open>resume()\<close> of the missing executive, "Held to Running on
  resume".  In any other state the call changes nothing.
\<close>

definition exec_resume :: "('d, 'c, 's) executive \<Rightarrow> ('d, 'c, 's) executive" where
  "exec_resume x = (if status x = Held then x\<lparr>status := Running\<rparr> else x)"

text \<open>Modelled from the spec: \<^verbatim>\<open>holding()\<close> of the missing executive, true in the state Held.\<close>

definition exec_holding :: "('d, 'c, 's) executive \<Rightarrow> bool" where
  "exec_holding x = (status x = Held)"

text \<open>
  Modelled from the spec: \<^verbatim>\<open>reset(mode) -> void\<close> of the missing executive, "any state to
  Initialized on reset-to-initial-conditions"; the clock is "resettable" and the state
  vector is "mutated only by the integration step or by explicit reset/initial-condition
  load".  The reset puts the clock to zero and, when the loaded definition and the
  flight condition on the bus have a solution, the state vector to it; the bus is left
  as it is.  The spec gives the mode no meaning.
\<close>

definition exec_reset ::
  "('d, 'c, 's) collaborators \<Rightarrow> int \<Rightarrow> ('d, 'c, 's) executive \<Rightarrow> ('d, 'c, 's) executive" where
  "exec_reset P mode x =
     (let x' = x\<lparr>status := Initialized, sim_time := 0\<rparr>
      in case aircraft x of
           None \<Rightarrow> x'
         | Some d \<Rightarrow>
             (case solve_ic P d (read_condition P (bus x) (flight_condition x)) of
                None \<Rightarrow> x'
              | Some sv \<Rightarrow> x'\<lparr>state_vector := sv\<rparr>))"

text \<open>
  Modelled from the spec: one round of the missing Trim Solver (section 4.10), which
  "adjusts a subset of control inputs and/or state variables, runs the simulation
  forward by small increments": the adjustment, then one frame.
\<close>

definition trim_round ::
  "('d, 'c, 's) collaborators \<Rightarrow> 'd \<Rightarrow> int \<Rightarrow> ('d, 'c, 's) executive \<Rightarrow> ('d, 'c, 's) executive" where
  "trim_round P d mode x =
     (case trim_adjust P mode (state_vector x, bus x) of
        (sv, b) \<Rightarrow> frame P d (x\<lparr>state_vector := sv, bus := b\<rparr>))"

text \<open>Modelled from the spec: the executive after \<open>k\<close> rounds of the missing Trim Solver.\<close>

fun trim_rounds ::
  "('d, 'c, 's) collaborators \<Rightarrow> 'd \<Rightarrow> int \<Rightarrow> nat \<Rightarrow> ('d, 'c, 's) executive \<Rightarrow> ('d, 'c, 's) executive" where
  "trim_rounds P d mode 0 x = x"
| "trim_rounds P d mode (Suc k) x = trim_rounds P d mode k (trim_round P d mode x)"

text \<open>
  Modelled from the spec: the convergence test of the missing Trim Solver, "convergence
  of net specific force/moment residuals to within tolerance".
\<close>

definition trim_converged ::
  "('d, 'c, 's) collaborators \<Rightarrow> int \<Rightarrow> ('d, 'c, 's) executive \<Rightarrow> bool" where
  "trim_converged P mode x =
     (\<bar>trim_residual P mode (state_vector x, bus x)\<bar> \<le> trim_tolerance P)"

text \<open>
  Modelled from the spec: the iteration of the missing Trim Solver.  Each round is
  followed by the convergence test, and the solver "fails with a distinct trim failure
  condition if residuals do not converge within a bounded iteration count"; the
  argument \<open>n\<close> is the number of rounds left.  The abort flag of section 5, whose
  outcome the spec does not define, is not modelled.
\<close>

fun trim_iterate ::
  "('d, 'c, 's) collaborators \<Rightarrow> 'd \<Rightarrow> int \<Rightarrow> nat \<Rightarrow> ('d, 'c, 's) executive
   \<Rightarrow> (trim_exception + unit) \<times> ('d, 'c, 's) executive" where
  "trim_iterate P d mode 0 x = (Inl TrimFailure, x)"
| "trim_iterate P d mode (Suc n) x =
     (let x' = trim_round P d mode x
      in if trim_converged P mode x' then (Inr (), x') else trim_iterate P d mode n x')"

text \<open>
  Modelled from the spec: \<^verbatim>\<open>doTrim(mode) -> success|TrimFailure\<close> of the missing
  executive, the trim solver run with its iteration cap.  Without a loaded definition
  there is nothing to trim, and the call fails.
\<close>

definition exec_do_trim ::
  "('d, 'c, 's) collaborators \<Rightarrow> int \<Rightarrow> ('d, 'c, 's) executive
   \<Rightarrow> (trim_exception + unit) \<times> ('d, 'c, 's) executive" where
  "exec_do_trim P mode x =
     (case aircraft x of
        None \<Rightarrow> (Inl TrimFailure, x)
      | Some d \<Rightarrow> trim_iterate P d mode (trim_iteration_cap P) x)"

text \<open>
  Modelled from the spec: the property write of the missing executive (section 6), a
  write to its bus, which creates or updates the node.
\<close>

definition exec_set_property ::
  "string \<Rightarrow> real \<Rightarrow> ('d, 'c, 's) executive \<Rightarrow> ('d, 'c, 's) executive" where
  "exec_set_property path v x = x\<lparr>bus := bus_set path v (bus x)\<rparr>"

text \<open>
  Modelled from the spec: the property read of the missing executive (section 6), at
  the type the binding gives it: the scalar of the node, and \<open>missing_value\<close> for a path
  without a node.
\<close>

definition exec_get_property ::
  "('d, 'c, 's) collaborators \<Rightarrow> string \<Rightarrow> ('d, 'c, 's) executive \<Rightarrow> real" where
  "exec_get_property P path x =
     (case bus_get (bus x) path of None \<Rightarrow> missing_value P | Some v \<Rightarrow> v)"

text \<open>
  Modelled from the spec: the missing executive as the native object the binding
  holds.  The members the spec does not describe (script loading, the four search
  paths) are no-ops; the number of engines is that of the loaded definition.
\<close>

definition native ::
  "('d, 'c, 's) collaborators \<Rightarrow> ('d, 'c, 's) executive FGFDMExec" where
  "native P =
     \<lparr> Run = exec_run P,
       RunIC = exec_run_ic P,
       LoadModel = exec_load P,
       LoadScript = (\<lambda>script delta_t initfile x. (False, x)),
       SetEnginePath = (\<lambda>path x. (True, x)),
       SetAircraftPath = (\<lambda>path x. (True, x)),
       SetSystemsPath = (\<lambda>path x. (True, x)),
       SetOutputPath = (\<lambda>path x. (True, x)),
       GetPropertyValue = exec_get_property P,
       SetPropertyValue = exec_set_property,
       DoTrim = exec_do_trim P,
       Hold = exec_hold,
       Resume = exec_resume,
       Holding = exec_holding,
       ResetToInitialConditions = exec_reset P,
       GetSimTime = sim_time,
       GetDeltaT = delta_t,
       GetNumEngines = (\<lambda>x. case aircraft x of None \<Rightarrow> 0 | Some d \<Rightarrow> int (engine_count P d)) \<rparr>"

subsection \<open>A small instance\<close>

text \<open>
  An instance to run the definitions on: a definition is its number of engines, the
  flight condition and the state vector are an altitude, which the property
  \<^verbatim>\<open>ic/h-sl-ft\<close> sets when it has a node, \<^verbatim>\<open>c172x\<close> is the only aircraft the loader
  knows, a negative altitude has no solution, the integrator adds the timestep to the
  altitude, and a trim round halves it until it is at most 1.
\<close>

definition demo :: "(nat, real, real) collaborators" where
  "demo =
     \<lparr> load_definition = (\<lambda>name. if name = ''c172x'' then Some 1 else None),
       solve_ic = (\<lambda>d c. if 0 \<le> c then Some c else None),
       read_condition = (\<lambda>b c. case b ''ic/h-sl-ft'' of None \<Rightarrow> c | Some h \<Rightarrow> h),
       atmosphere = (\<lambda>d h w. w),
       mass_balance = (\<lambda>d h w. w),
       aerodynamics = (\<lambda>d h w. w),
       propulsion = (\<lambda>d h w. w),
       ground_reactions = (\<lambda>d h w. w),
       propagate = (\<lambda>d h w. (fst w + h, snd w)),
       auxiliary = (\<lambda>d h w. w),
       engine_count = (\<lambda>d. d),
       trim_adjust = (\<lambda>mode w. (fst w / 2, snd w)),
       trim_residual = (\<lambda>mode w. fst w),
       trim_tolerance = 1,
       trim_iteration_cap = 3,
       missing_value = 0 \<rparr>"

definition demo_executive :: "(nat, real, real) executive" where
  "demo_executive = exec_new 5000 0 (1 / 120)"

definition demo_instance :: "'f \<Rightarrow> (unit, 'f) JSBSim" where
  "demo_instance x = \<lparr> module = Some (), fdm = Some x \<rparr>"

text \<open>The executive after loading \<^verbatim>\<open>c172x\<close> and applying the initial condition.\<close>

definition demo_ready :: "(nat, real, real) executive" where
  "demo_ready = snd (exec_run_ic demo (snd (exec_load demo ''c172x'' True demo_executive)))"

text \<open>The same executive on hold, and one initialised at an altitude of 4.\<close>

definition demo_held :: "(nat, real, real) executive" where
  "demo_held = exec_hold demo_ready"

definition demo_low :: "(nat, real, real) executive" where
  "demo_low =
     snd (exec_run_ic demo (snd (exec_load demo ''c172x'' True (exec_new 4 0 (1 / 120)))))"

text \<open>The initialised executive after two steps and an elevator command, then on hold.\<close>

definition demo_flown :: "(nat, real, real) executive" where
  "demo_flown =
     perform_all (native demo)
       [CallRun, CallSetPropertyValue ''fcs/elevator-cmd-norm'' 0.5, CallRun, CallHold] demo_ready"




text \<open>An instance whose gear is half way.\<close>

definition gear_in_transit :: "(unit, (nat, real, real) executive) JSBSim" where
  "gear_in_transit =
     demo_instance (exec_set_property ''gear/gear-pos-norm'' 0.5 demo_executive)"

text \<open>A module whose helpers and constructor succeed, and the configuration \<^verbatim>\<open>{}\<close>.\<close>

definition demo_module :: "(unit, (nat, real, real) executive) JSBSimModule" where
  "demo_module =
     \<lparr> loadDataFiles = (\<lambda>files m. Inr m),
       setupJSBSimPaths = (\<lambda>rootPath m. Inr m),
       new_FGFDMExec = (\<lambda>rootPath m. Inr demo_executive) \<rparr>"

definition empty_config :: JSBSimConfig where
  "empty_config =
     \<lparr> rootDir = None, aircraftPath = None, enginePath = None, systemsPath = None,
       outputPath = None, dataFiles = None \<rparr>"

definition demo_new :: "(unit, (nat, real, real) executive) JSBSim" where
  "demo_new = new_JSBSim"

section \<open>Basic facts\<close>

lemmas binding_defs =
  fdm_run_def fdm_runIC_def fdm_loadModel_def fdm_loadScript_def fdm_setEnginePath_def
  fdm_setAircraftPath_def fdm_setSystemsPath_def fdm_setOutputPath_def
  fdm_getPropertyValue_def fdm_setPropertyValue_def fdm_doTrim_def fdm_hold_def
  fdm_resume_def fdm_holding_def fdm_resetToInitialConditions_def fdm_getSimTime_def
  fdm_getDeltaT_def fdm_getNumEngines_def

lemmas bus_defs = bus_set_def bus_get_def bus_exists_def

lemma seq_throws: "m j = (Inl e, j') \<Longrightarrow> seq m k j = (Inl e, j')"
  by (simp add: seq_def)

lemma seq_returns: "m j = (Inr a, j') \<Longrightarrow> seq m k j = k a j'"
  by (simp add: seq_def)

lemma getProperty_Some:
  "fdm j = Some f \<Longrightarrow> getProperty N path j = (Inr (fdm_getPropertyValue N path f), j)"
  by (simp add: getProperty_def)

lemma setProperty_Some:
  "fdm j = Some f \<Longrightarrow>
   setProperty N path v j = (Inr (), j\<lparr>fdm := Some (fdm_setPropertyValue N path v f)\<rparr>)"
  by (simp add: setProperty_def)

lemma getProperty_None: "fdm j = None \<Longrightarrow> getProperty N path j = (Inl not_initialized, j)"
  by (simp add: getProperty_def)

lemma setProperty_None: "fdm j = None \<Longrightarrow> setProperty N path v j = (Inl not_initialized, j)"
  by (simp add: setProperty_def)

lemma getFDM_None: "fdm j = None \<Longrightarrow> getFDM j = (Inl not_initialized, j)"
  by (simp add: getFDM_def)

lemma native_get_property [simp]:
  "fdm_getPropertyValue (native P) path x = exec_get_property P path x"
  by (simp add: fdm_getPropertyValue_def native_def)

lemma native_set_property [simp]:
  "fdm_setPropertyValue (native P) path v x = exec_set_property path v x"
  by (simp add: fdm_setPropertyValue_def native_def)

lemma get_after_set:
  "exec_get_property P q (exec_set_property p v x) = (if q = p then v else exec_get_property P q x)"
  by (simp add: exec_get_property_def exec_set_property_def bus_defs)

section \<open>Rounding to double\<close>
















lemma round_half_even_nearest: "\<bar>of_int (round_half_even y) - y\<bar> \<le> 1 / 2"
proof -
  have "of_int \<lfloor>y\<rfloor> \<le> y" "y < of_int \<lfloor>y\<rfloor> + 1" by linarith+
  then show ?thesis by (auto simp: round_half_even_def Let_def)
qed

lemma round_double_nearest:
  "\<bar>round_double x - x\<bar> \<le> 2 powi (max (binade x) (- 1022) - 52) / 2"
proof (cases "x = 0")
  case True
  then show ?thesis by (simp add: round_double_def)
next
  case False
  define u :: real where "u = 2 powi (max (binade x) (- 1022) - 52)"
  have u: "0 < u" by (simp add: u_def)
  have "round_double x - x = u * (of_int (round_half_even (x / u)) - x / u)"
    using False u by (simp add: round_double_def Let_def u_def [symmetric] algebra_simps)
  then have "\<bar>round_double x - x\<bar> = u * \<bar>of_int (round_half_even (x / u)) - x / u\<bar>"
    using u by (simp add: abs_mult)
  also have "\<dots> \<le> u * (1 / 2)"
    using u round_half_even_nearest [of "x / u"] by (intro mult_left_mono) simp_all
  finally show ?thesis by (simp add: u_def)
qed


section \<open>Landing gear predicates\<close>

text \<open>
  C10.  Whatever value the property \<^verbatim>\<open>gear/gear-pos-norm\<close> has, \<^verbatim>\<open>isLandingGearDown\<close>
  and \<^verbatim>\<open>isLandingGearUp\<close> never both return true; and when the value lies in the
  closed interval from 0.01 to 0.99 both return false and leave the instance as it was.
  The first part also covers the instance without an executive, where both throw.
\<close>

theorem landing_gear_down_up_exclusive:
  "\<not> (fst (isLandingGearDown N j) = Inr True \<and> fst (isLandingGearUp N j) = Inr True) \<and>
   (\<forall>f. fdm j = Some f \<and> 0.01 \<le> fdm_getPropertyValue N ''gear/gear-pos-norm'' f
          \<and> fdm_getPropertyValue N ''gear/gear-pos-norm'' f \<le> 0.99
      \<longrightarrow> isLandingGearDown N j = (Inr False, j) \<and> isLandingGearUp N j = (Inr False, j))"
proof (cases "fdm j")
  case None
  then show ?thesis
    by (simp add: isLandingGearDown_def isLandingGearUp_def getLandingGearPosition_def
        getProperty_None seq_throws)
next
  case (Some f)
  then show ?thesis
    by (auto simp: isLandingGearDown_def isLandingGearUp_def getLandingGearPosition_def
        getProperty_Some seq_returns ret_def)
qed

theorem landing_gear_down_up_exclusive_witness:
  "isLandingGearDown (native demo) gear_in_transit = (Inr False, gear_in_transit) \<and>
   isLandingGearUp (native demo) gear_in_transit = (Inr False, gear_in_transit)"
  using landing_gear_down_up_exclusive [of "native demo" gear_in_transit]
  by (simp add: gear_in_transit_def demo_instance_def get_after_set)

section \<open>Property access through the wrapper\<close>

text \<open>
  C1, as stated, asks for a not-found outcome that differs from every double.  The
  binding's \<^verbatim>\<open>getPropertyValue\<close> returns a \<^verbatim>\<open>double\<close> and index.ts passes it on, so a path
  without a node reads as a number.  Here the path \<^verbatim>\<open>no/such/property\<close> has no node, and
  reading it gives the same outcome, 0, as reading it after a node holding 0 was created.
  Which number a miss reads as is for the engine to say, and is 0 in this instance; that
  it is a number, with every engine, is the statement after this one.
\<close>

theorem unknown_path_reads_as_number:
  "bus_exists (bus demo_executive) ''no/such/property'' = False \<and>
   fst (getProperty (native demo) ''no/such/property'' (demo_instance demo_executive)) = Inr 0 \<and>
   bus_exists (bus (exec_set_property ''no/such/property'' 0 demo_executive)) ''no/such/property'' = True \<and>
   fst (getProperty (native demo) ''no/such/property''
          (demo_instance (exec_set_property ''no/such/property'' 0 demo_executive))) = Inr 0"
  by (simp add: getProperty_def demo_instance_def demo_executive_def exec_new_def
      exec_get_property_def exec_set_property_def bus_defs demo_def)

text \<open>
  C1, amended.  For every path, whether or not it names a node, and every executive
  \<open>N\<close> of the binding's type: on an instance with an executive, \<^verbatim>\<open>getProperty\<close> returns
  the double the binding's \<^verbatim>\<open>getPropertyValue\<close> returns for the path, and \<^verbatim>\<open>setProperty\<close>
  forwards the write and returns nothing; neither throws, and neither has an outcome
  other than these.  Without an executive both throw the \<^verbatim>\<open>BaseError\<close> of an instance
  that is not initialised, and the instance stays as it was.
\<close>

theorem property_access_outcomes:
  "(\<forall>f. fdm j = Some f \<longrightarrow>
      getProperty N path j = (Inr (fdm_getPropertyValue N path f), j) \<and>
      setProperty N path v j = (Inr (), j\<lparr>fdm := Some (fdm_setPropertyValue N path v f)\<rparr>)) \<and>
   (fdm j = None \<longrightarrow>
      getProperty N path j = (Inl not_initialized, j) \<and>
      setProperty N path v j = (Inl not_initialized, j))"
  by (simp add: getProperty_def setProperty_def)

theorem property_access_outcomes_witness:
  "getProperty (native demo) ''no/such/property'' (demo_instance demo_executive)
     = (Inr 0, demo_instance demo_executive) \<and>
   setProperty (native demo) ''no/such/property'' 7 (demo_instance demo_executive)
     = (Inr (), demo_instance (exec_set_property ''no/such/property'' 7 demo_executive)) \<and>
   getProperty (native demo) ''no/such/property'' (new_JSBSim :: (unit, (nat, real, real) executive) JSBSim)
     = (Inl not_initialized, new_JSBSim)"
  using property_access_outcomes [of "demo_instance demo_executive" "native demo" "''no/such/property''" 7]
    property_access_outcomes [of "new_JSBSim :: (unit, (nat, real, real) executive) JSBSim" "native demo" "''no/such/property''" 7]
  by (simp add: demo_instance_def new_JSBSim_def demo_executive_def exec_new_def
      exec_get_property_def bus_defs demo_def)

section \<open>Calls on an instance that is not initialised\<close>

lemma init_failure_keeps_fdm:
  assumes "init M N factory config j = (Inl e, j')"
  shows "fdm j' = fdm j"
  using assms
  by (auto simp: init_def init_body_def split: sum.splits option.splits if_splits prod.splits)

lemma init_not_completed_fdm: "init_not_completed M N j \<Longrightarrow> fdm j = None"
proof (induction rule: init_not_completed.induct)
  case fresh
  show ?case by (simp add: new_JSBSim_def)
next
  case (failed j factory config e j')
  from failed.hyps(2) have "fdm j' = fdm j" by (rule init_failure_keeps_fdm)
  with failed.IH show ?case by simp
qed

text \<open>With the factory of index.ts, \<^verbatim>\<open>init\<close> always fails and writes nothing.\<close>

lemma init_with_stub_factory:
  "init M N JSBSimModuleFactory config j =
     (Inl (BaseError (''Failed to initialize JSBSim: Error: ''
            @ ''JSBSim WebAssembly module not available. Build the WASM module first.'')), j)"
  by (simp add: init_def init_body_def JSBSimModuleFactory_def error_toString_def)

lemma uninitialised_core:
  "fdm j = None \<Longrightarrow>
   throws_not_initialized getFDM j \<and>
   throws_not_initialized (loadAircraft N aircraftName addToPath) j \<and>
   throws_not_initialized (runScript N scriptPath deltaT initFile) j \<and>
   throws_not_initialized (step N) j \<and>
   throws_not_initialized (getTime N) j \<and>
   throws_not_initialized (setProperty N property v) j \<and>
   throws_not_initialized (getProperty N property) j \<and>
   throws_not_initialized (reset N) j"
  by (simp_all add: throws_not_initialized_def seq_def getProperty_None setProperty_None getFDM_None
      getFDM_def loadAircraft_def runScript_def step_def getTime_def
      setProperty_def getProperty_def reset_def)

lemma uninitialised_controls:
  "fdm j = None \<Longrightarrow>
   throws_not_initialized (setElevator N v) j \<and>
   throws_not_initialized (setAileron N v) j \<and>
   throws_not_initialized (setRudder N v) j \<and>
   throws_not_initialized (setFlaps N v) j \<and>
   throws_not_initialized (setSpeedbrakes N v) j \<and>
   throws_not_initialized (setSpoilers N v) j \<and>
   throws_not_initialized (setPitchTrim N v) j \<and>
   throws_not_initialized (setRollTrim N v) j \<and>
   throws_not_initialized (setYawTrim N v) j \<and>
   throws_not_initialized (setAllThrottles N v) j \<and>
   throws_not_initialized (setLeftBrake N v) j \<and>
   throws_not_initialized (setRightBrake N v) j \<and>
   throws_not_initialized (setCenterBrake N v) j \<and>
   throws_not_initialized (setBrakes N v) j \<and>
   throws_not_initialized (setSteering N v) j \<and>
   throws_not_initialized (setLandingGear N v) j \<and>
   throws_not_initialized (setThrottle N engineIndex v) j \<and>
   throws_not_initialized (setMixture N engineIndex v) j \<and>
   throws_not_initialized (setPropellerAdvance N engineIndex v) j"
  by (simp_all add: throws_not_initialized_def seq_def getProperty_None setProperty_None getFDM_None
      setElevator_def setAileron_def setRudder_def setFlaps_def setSpeedbrakes_def
      setSpoilers_def setPitchTrim_def setRollTrim_def setYawTrim_def setAllThrottles_def
      setLeftBrake_def setRightBrake_def setCenterBrake_def setBrakes_def setSteering_def
      setLandingGear_def setThrottle_def setMixture_def setPropellerAdvance_def)

lemma uninitialised_getters:
  "fdm j = None \<Longrightarrow>
   throws_not_initialized (getPosition N) j \<and>
   throws_not_initialized (getLatitude N) j \<and>
   throws_not_initialized (getLongitude N) j \<and>
   throws_not_initialized (getAltitude N) j \<and>
   throws_not_initialized (getAltitudeAGL N) j \<and>
   throws_not_initialized (getAttitude N) j \<and>
   throws_not_initialized (getRoll N) j \<and>
   throws_not_initialized (getPitch N) j \<and>
   throws_not_initialized (getHeading N) j \<and>
   throws_not_initialized (getVelocity N) j \<and>
   throws_not_initialized (getGroundSpeed N) j \<and>
   throws_not_initialized (getCalibratedAirspeed N) j \<and>
   throws_not_initialized (getTrueAirspeed N) j \<and>
   throws_not_initialized (getMachNumber N) j \<and>
   throws_not_initialized (getAngularRates N) j \<and>
   throws_not_initialized (getRollRate N) j \<and>
   throws_not_initialized (getPitchRate N) j \<and>
   throws_not_initialized (getYawRate N) j \<and>
   throws_not_initialized (getAngleOfAttack N) j \<and>
   throws_not_initialized (getSideslipAngle N) j \<and>
   throws_not_initialized (getDynamicPressure N) j"
  by (simp_all add: throws_not_initialized_def seq_def getProperty_None setProperty_None getFDM_None
      getPosition_def getLatitude_def getLongitude_def getAltitude_def getAltitudeAGL_def
      getAttitude_def getRoll_def getPitch_def getHeading_def getVelocity_def
      getGroundSpeed_def getCalibratedAirspeed_def getTrueAirspeed_def getMachNumber_def getAngularRates_def
      getRollRate_def getPitchRate_def getYawRate_def getAngleOfAttack_def getSideslipAngle_def
      getDynamicPressure_def)

lemma uninitialised_engines:
  "fdm j = None \<Longrightarrow>
   throws_not_initialized (getEngineThrust N engineIndex) j \<and>
   throws_not_initialized (getTotalThrust N) j \<and>
   throws_not_initialized (getFuelFlowRate N engineIndex) j \<and>
   throws_not_initialized (getTotalFuel N) j \<and>
   throws_not_initialized (isEngineRunning N engineIndex) j \<and>
   throws_not_initialized (setEngineRunning N engineIndex running) j \<and>
   throws_not_initialized (startAllEngines N) j \<and>
   throws_not_initialized (stopAllEngines N) j"
  by (simp_all add: throws_not_initialized_def seq_def getProperty_None setProperty_None getFDM_None
      getEngineThrust_def getTotalThrust_def getFuelFlowRate_def getTotalFuel_def isEngineRunning_def
      setEngineRunning_def startAllEngines_def stopAllEngines_def)

lemma uninitialised_others:
  "fdm j = None \<Longrightarrow>
   throws_not_initialized (isOnGround N) j \<and>
   throws_not_initialized (getLandingGearPosition N) j \<and>
   throws_not_initialized (isLandingGearDown N) j \<and>
   throws_not_initialized (isLandingGearUp N) j \<and>
   throws_not_initialized (getElevatorPosition N) j \<and>
   throws_not_initialized (getAileronPosition N) j \<and>
   throws_not_initialized (getRudderPosition N) j \<and>
   throws_not_initialized (getFlapsPosition N) j \<and>
   throws_not_initialized (getSpeedbrakesPosition N) j \<and>
   throws_not_initialized (getAtmosphericConditions N) j \<and>
   throws_not_initialized (getWindComponents N) j \<and>
   throws_not_initialized (getAerodynamicForces N) j \<and>
   throws_not_initialized (getAerodynamicMoments N) j \<and>
   throws_not_initialized (getPropulsionForces N) j \<and>
   throws_not_initialized (getAircraftState N) j"
  by (simp_all add: throws_not_initialized_def seq_def getProperty_None setProperty_None getFDM_None
      isOnGround_def getLandingGearPosition_def isLandingGearDown_def isLandingGearUp_def getElevatorPosition_def
      getAileronPosition_def getRudderPosition_def getFlapsPosition_def getSpeedbrakesPosition_def getAtmosphericConditions_def
      getWindComponents_def getAerodynamicForces_def getAerodynamicMoments_def getPropulsionForces_def getAircraftState_def)

text \<open>
  C8.  On an instance on which no \<^verbatim>\<open>init\<close> has completed (a new one, or one left by
  failed calls of \<^verbatim>\<open>init\<close>), every method of \<^verbatim>\<open>JSBSim\<close> that reaches the executive
  throws the \<^verbatim>\<open>BaseError\<close> with the message "JSBSim not initialized. Call init() first."
  and leaves the instance exactly as it was: \<^verbatim>\<open>getFDM\<close>, \<^verbatim>\<open>loadAircraft\<close>,
  \<^verbatim>\<open>runScript\<close>, \<^verbatim>\<open>step\<close>, \<^verbatim>\<open>run\<close> (its promise is rejected), \<^verbatim>\<open>getTime\<close>,
  \<^verbatim>\<open>setProperty\<close>, \<^verbatim>\<open>getProperty\<close>, \<^verbatim>\<open>reset\<close>, and each control and getter method
  built on them.
\<close>

theorem methods_throw_before_init:
  assumes "init_not_completed M N j"
  shows
  "not_initialized = BaseError ''JSBSim not initialized. Call init() first.'' \<and>
   run N duration realTime j = Some (Inl not_initialized, j) \<and>
   throws_not_initialized getFDM j \<and>
   throws_not_initialized (loadAircraft N aircraftName addToPath) j \<and>
   throws_not_initialized (runScript N scriptPath deltaT initFile) j \<and>
   throws_not_initialized (step N) j \<and>
   throws_not_initialized (getTime N) j \<and>
   throws_not_initialized (setProperty N property v) j \<and>
   throws_not_initialized (getProperty N property) j \<and>
   throws_not_initialized (reset N) j \<and>
   throws_not_initialized (setElevator N v) j \<and>
   throws_not_initialized (setAileron N v) j \<and>
   throws_not_initialized (setRudder N v) j \<and>
   throws_not_initialized (setFlaps N v) j \<and>
   throws_not_initialized (setSpeedbrakes N v) j \<and>
   throws_not_initialized (setSpoilers N v) j \<and>
   throws_not_initialized (setPitchTrim N v) j \<and>
   throws_not_initialized (setRollTrim N v) j \<and>
   throws_not_initialized (setYawTrim N v) j \<and>
   throws_not_initialized (setAllThrottles N v) j \<and>
   throws_not_initialized (setLeftBrake N v) j \<and>
   throws_not_initialized (setRightBrake N v) j \<and>
   throws_not_initialized (setCenterBrake N v) j \<and>
   throws_not_initialized (setBrakes N v) j \<and>
   throws_not_initialized (setSteering N v) j \<and>
   throws_not_initialized (setLandingGear N v) j \<and>
   throws_not_initialized (setThrottle N engineIndex v) j \<and>
   throws_not_initialized (setMixture N engineIndex v) j \<and>
   throws_not_initialized (setPropellerAdvance N engineIndex v) j \<and>
   throws_not_initialized (getPosition N) j \<and>
   throws_not_initialized (getLatitude N) j \<and>
   throws_not_initialized (getLongitude N) j \<and>
   throws_not_initialized (getAltitude N) j \<and>
   throws_not_initialized (getAltitudeAGL N) j \<and>
   throws_not_initialized (getAttitude N) j \<and>
   throws_not_initialized (getRoll N) j \<and>
   throws_not_initialized (getPitch N) j \<and>
   throws_not_initialized (getHeading N) j \<and>
   throws_not_initialized (getVelocity N) j \<and>
   throws_not_initialized (getGroundSpeed N) j \<and>
   throws_not_initialized (getCalibratedAirspeed N) j \<and>
   throws_not_initialized (getTrueAirspeed N) j \<and>
   throws_not_initialized (getMachNumber N) j \<and>
   throws_not_initialized (getAngularRates N) j \<and>
   throws_not_initialized (getRollRate N) j \<and>
   throws_not_initialized (getPitchRate N) j \<and>
   throws_not_initialized (getYawRate N) j \<and>
   throws_not_initialized (getAngleOfAttack N) j \<and>
   throws_not_initialized (getSideslipAngle N) j \<and>
   throws_not_initialized (getDynamicPressure N) j \<and>
   throws_not_initialized (getEngineThrust N engineIndex) j \<and>
   throws_not_initialized (getTotalThrust N) j \<and>
   throws_not_initialized (getFuelFlowRate N engineIndex) j \<and>
   throws_not_initialized (getTotalFuel N) j \<and>
   throws_not_initialized (isEngineRunning N engineIndex) j \<and>
   throws_not_initialized (setEngineRunning N engineIndex running) j \<and>
   throws_not_initialized (startAllEngines N) j \<and>
   throws_not_initialized (stopAllEngines N) j \<and>
   throws_not_initialized (isOnGround N) j \<and>
   throws_not_initialized (getLandingGearPosition N) j \<and>
   throws_not_initialized (isLandingGearDown N) j \<and>
   throws_not_initialized (isLandingGearUp N) j \<and>
   throws_not_initialized (getElevatorPosition N) j \<and>
   throws_not_initialized (getAileronPosition N) j \<and>
   throws_not_initialized (getRudderPosition N) j \<and>
   throws_not_initialized (getFlapsPosition N) j \<and>
   throws_not_initialized (getSpeedbrakesPosition N) j \<and>
   throws_not_initialized (getAtmosphericConditions N) j \<and>
   throws_not_initialized (getWindComponents N) j \<and>
   throws_not_initialized (getAerodynamicForces N) j \<and>
   throws_not_initialized (getAerodynamicMoments N) j \<and>
   throws_not_initialized (getPropulsionForces N) j \<and>
   throws_not_initialized (getAircraftState N) j"
proof -
  have none: "fdm j = None"
    using assms by (rule init_not_completed_fdm)
  have "run N duration realTime j = Some (Inl not_initialized, j)"
    using none by (simp add: run_def)
  then show ?thesis
    using uninitialised_core [OF none] uninitialised_controls [OF none]
      uninitialised_getters [OF none] uninitialised_engines [OF none]
      uninitialised_others [OF none]
    by (simp add: not_initialized_def)
qed

theorem methods_throw_before_init_witness:
  "throws_not_initialized (setElevator (native demo) 0.5) demo_new \<and>
   throws_not_initialized (getAircraftState (native demo)) demo_new \<and>
   run (native demo) 1 False demo_new = Some (Inl not_initialized, demo_new) \<and>
   throws_not_initialized getFDM
     (snd (init demo_module (native demo) JSBSimModuleFactory empty_config demo_new))"
proof -
  have a: "init_not_completed demo_module (native demo) demo_new"
    unfolding demo_new_def by (rule init_not_completed.fresh)
  have "init demo_module (native demo) JSBSimModuleFactory empty_config demo_new
          = (fst (init demo_module (native demo) JSBSimModuleFactory empty_config demo_new),
             snd (init demo_module (native demo) JSBSimModuleFactory empty_config demo_new))"
    by simp
  then have b: "init_not_completed demo_module (native demo)
      (snd (init demo_module (native demo) JSBSimModuleFactory empty_config demo_new))"
    using init_not_completed.failed [OF a] init_with_stub_factory
    by (metis fst_conv)
  show ?thesis
    using methods_throw_before_init [OF a, of 1 False]
      methods_throw_before_init [OF b]
    by simp
qed

section \<open>The loop of \<^verbatim>\<open>JSBSim.run\<close>\<close>

lemma after_steps_Suc: "after_steps N (Suc k) f = snd (fdm_run N (after_steps N k f))"
  by (induction k arbitrary: f) simp_all













section \<open>Brakes\<close>

text \<open>
  C9.  On an instance with an executive, \<^verbatim>\<open>setBrakes(value)\<close> does what \<^verbatim>\<open>setLeftBrake(value)\<close>
  followed by \<^verbatim>\<open>setRightBrake(value)\<close> does, which is to write \<^verbatim>\<open>fcs/left-brake-cmd-norm\<close>
  and then \<^verbatim>\<open>fcs/right-brake-cmd-norm\<close> through the binding, for every executive;
  without an executive the first of the two throws and nothing is written.  On
  the property bus of the specification, where a write creates or updates one node,
  both properties then hold the value, every other path (\<^verbatim>\<open>fcs/center-brake-cmd-norm\<close>
  among them) reads as before, and nothing of the executive but the bus has changed.
\<close>

theorem setBrakes_writes_left_and_right:
  "(fdm j = None \<longrightarrow>
      setBrakes N v j = (Inl not_initialized, j) \<and> setLeftBrake N v j = (Inl not_initialized, j)) \<and>
   (fdm j = Some f \<longrightarrow>
      setBrakes N v j = setRightBrake N v (snd (setLeftBrake N v j)) \<and>
      setBrakes N v j =
        (Inr (), j\<lparr>fdm := Some (fdm_setPropertyValue N ''fcs/right-brake-cmd-norm'' v
                               (fdm_setPropertyValue N ''fcs/left-brake-cmd-norm'' v f))\<rparr>)) \<and>
   (fdm jx = Some x \<longrightarrow>
      setBrakes (native P) v jx =
        (Inr (), jx\<lparr>fdm := Some (x\<lparr>bus := (bus x)(''fcs/left-brake-cmd-norm'' \<mapsto> v,
                                                  ''fcs/right-brake-cmd-norm'' \<mapsto> v)\<rparr>)\<rparr>) \<and>
      fst (getProperty (native P) ''fcs/left-brake-cmd-norm'' (snd (setBrakes (native P) v jx))) = Inr v \<and>
      fst (getProperty (native P) ''fcs/right-brake-cmd-norm'' (snd (setBrakes (native P) v jx))) = Inr v \<and>
      fst (getProperty (native P) ''fcs/center-brake-cmd-norm'' (snd (setBrakes (native P) v jx)))
        = fst (getProperty (native P) ''fcs/center-brake-cmd-norm'' jx) \<and>
      (q \<noteq> ''fcs/left-brake-cmd-norm'' \<and> q \<noteq> ''fcs/right-brake-cmd-norm'' \<longrightarrow>
         fst (getProperty (native P) q (snd (setBrakes (native P) v jx)))
           = fst (getProperty (native P) q jx) \<and>
         bus_get ((bus x)(''fcs/left-brake-cmd-norm'' \<mapsto> v, ''fcs/right-brake-cmd-norm'' \<mapsto> v)) q
           = bus_get (bus x) q))"
  by (auto simp: setBrakes_def setLeftBrake_def setRightBrake_def setProperty_def seq_def
      getProperty_def exec_set_property_def exec_get_property_def bus_defs)

theorem setBrakes_writes_left_and_right_witness:
  "fst (getProperty (native demo) ''fcs/left-brake-cmd-norm''
         (snd (setBrakes (native demo) 0.5
            (demo_instance (exec_set_property ''fcs/center-brake-cmd-norm'' 0.25 demo_ready))))) = Inr 0.5 \<and>
   fst (getProperty (native demo) ''fcs/right-brake-cmd-norm''
         (snd (setBrakes (native demo) 0.5
            (demo_instance (exec_set_property ''fcs/center-brake-cmd-norm'' 0.25 demo_ready))))) = Inr 0.5 \<and>
   fst (getProperty (native demo) ''fcs/center-brake-cmd-norm''
         (snd (setBrakes (native demo) 0.5
            (demo_instance (exec_set_property ''fcs/center-brake-cmd-norm'' 0.25 demo_ready))))) = Inr 0.25"
proof -
  let ?x = "exec_set_property ''fcs/center-brake-cmd-norm'' 0.25 demo_ready"
  have a: "fdm (demo_instance ?x) = Some ?x"
    by (simp add: demo_instance_def)
  have b: "fst (getProperty (native demo) ''fcs/center-brake-cmd-norm'' (demo_instance ?x)) = Inr 0.25"
    by (simp add: getProperty_def demo_instance_def get_after_set)
  note t = setBrakes_writes_left_and_right
    [of "demo_instance ?x" "native demo" "0.5" ?x "demo_instance ?x" ?x demo
        "''fcs/center-brake-cmd-norm''", THEN conjunct2, THEN conjunct2, rule_format, OF a]
  from t have "fst (getProperty (native demo) ''fcs/center-brake-cmd-norm''
         (snd (setBrakes (native demo) 0.5 (demo_instance ?x))))
       = fst (getProperty (native demo) ''fcs/center-brake-cmd-norm'' (demo_instance ?x))"
    by blast
  from this b have "fst (getProperty (native demo) ''fcs/center-brake-cmd-norm''
         (snd (setBrakes (native demo) 0.5 (demo_instance ?x)))) = Inr 0.25"
    by (rule trans)
  with t show ?thesis by blast
qed

section \<open>The executive of the specification behind the binding\<close>

lemma native_simps [simp]:
  "fdm_run (native P) = exec_run P"
  "fdm_runIC (native P) = exec_run_ic P"
  "fdm_loadModel (native P) = exec_load P"
  "fdm_doTrim (native P) = exec_do_trim P"
  "fdm_hold (native P) = exec_hold"
  "fdm_resume (native P) = exec_resume"
  "fdm_holding (native P) = exec_holding"
  "fdm_resetToInitialConditions (native P) = exec_reset P"
  "fdm_getSimTime (native P) = sim_time"
  "fdm_getDeltaT (native P) = delta_t"
  by (simp_all add: binding_defs native_def fun_eq_iff)

subsection \<open>Hold\<close>

text \<open>
  C3.  While \<^verbatim>\<open>holding()\<close> is true, the binding's \<^verbatim>\<open>run()\<close> returns false and leaves the
  whole executive as it was: status, clock, state vector, bus.  The result is the same
  for every choice of the seven models, so none of them was stepped.  The wrapper's
  \<^verbatim>\<open>step()\<close> then returns false and leaves the instance as it was, and any number of
  calls of \<^verbatim>\<open>run()\<close> leaves the executive as it was.
\<close>

theorem held_run_does_not_advance:
  assumes "fdm_holding (native P) x"
  shows "fdm_run (native P) x = (False, x) \<and>
         fdm_run (native P') x = (False, x) \<and>
         fdm_getSimTime (native P) (snd (fdm_run (native P) x)) = fdm_getSimTime (native P) x \<and>
         after_steps (native P) k x = x \<and>
         (fdm j = Some x \<longrightarrow> step (native P) j = (Inr False, j))"
proof -
  have held: "status x = Held"
    using assms by (simp add: exec_holding_def)
  then have r: "exec_run Q x = (False, x)" for Q :: "('a, 'b, 'c) collaborators"
    by (simp add: exec_run_def)
  have "after_steps (native P) k x = x"
    by (induction k) (simp_all add: r)
  then show ?thesis
    using r by (simp add: step_def)
qed

theorem held_run_does_not_advance_witness:
  "fdm_holding (native demo) demo_held \<and>
   fdm_run (native demo) demo_held = (False, demo_held) \<and>
   step (native demo) (demo_instance demo_held) = (Inr False, demo_instance demo_held) \<and>
   fst (fdm_run (native demo) demo_ready)"
proof -
  have h: "fdm_holding (native demo) demo_held"
    by (simp add: demo_held_def demo_ready_def exec_hold_def exec_holding_def exec_run_ic_def
        exec_load_def demo_def demo_executive_def exec_new_def)
  have "fst (fdm_run (native demo) demo_ready)"
    by (simp add: demo_ready_def exec_run_def exec_run_ic_def
        exec_load_def demo_def demo_executive_def exec_new_def)
  then show ?thesis
    using h held_run_does_not_advance [OF h, of demo 0 "demo_instance demo_held"]
    by (simp add: demo_instance_def)
qed

subsection \<open>Load errors\<close>

text \<open>
  C6.  When the loader has no definition for a name (it is malformed or missing),
  \<^verbatim>\<open>loadModel\<close> on an unloaded executive returns false and leaves the executive as it
  was, so it is still Unloaded; the wrapper's \<^verbatim>\<open>loadAircraft\<close> returns false and leaves
  the instance as it was.  A later \<^verbatim>\<open>loadModel\<close> on the same executive with a name the
  loader has a definition for returns true and leaves the executive Loaded with that
  definition.
\<close>

theorem failed_load_is_retryable:
  assumes "status x = Unloaded" and "load_definition P name = None"
  shows "fdm_loadModel (native P) name add x = (False, x) \<and>
         status (snd (fdm_loadModel (native P) name add x)) = Unloaded \<and>
         (fdm j = Some x \<longrightarrow> loadAircraft (native P) name add j = (Inr False, j)) \<and>
         (load_definition P name' = Some d \<longrightarrow>
            fdm_loadModel (native P) name' add' (snd (fdm_loadModel (native P) name add x))
              = (True, x\<lparr>aircraft := Some d, status := Loaded\<rparr>))"
proof -
  have r: "exec_load P name add x = (False, x)"
    using assms(2) by (simp add: exec_load_def)
  show ?thesis
    using assms(1) r by (simp add: exec_load_def loadAircraft_def)
qed

theorem failed_load_is_retryable_witness:
  "fdm_loadModel (native demo) ''no-such-aircraft'' True demo_executive = (False, demo_executive) \<and>
   fdm_loadModel (native demo) ''c172x'' True
       (snd (fdm_loadModel (native demo) ''no-such-aircraft'' True demo_executive))
     = (True, demo_executive\<lparr>aircraft := Some 1, status := Loaded\<rparr>)"
proof -
  have a: "status demo_executive = Unloaded"
    by (simp add: demo_executive_def exec_new_def)
  have b: "load_definition demo ''no-such-aircraft'' = None"
    by (simp add: demo_def)
  have c: "load_definition demo ''c172x'' = Some 1"
    by (simp add: demo_def)
  show ?thesis
    using failed_load_is_retryable [OF a b, of True "demo_instance demo_executive" "''c172x''" 1 True] c
    by auto
qed

subsection \<open>Reset and initial conditions\<close>

lemma frame_keeps_inputs [simp]:
  "aircraft (frame P d x) = aircraft x"
  "flight_condition (frame P d x) = flight_condition x"
  "status (frame P d x) = status x"
  "delta_t (frame P d x) = delta_t x"
  by (simp_all add: frame_def split: prod.splits)

lemma trim_round_keeps_inputs [simp]:
  "aircraft (trim_round P d mode x) = aircraft x"
  "flight_condition (trim_round P d mode x) = flight_condition x"
  "status (trim_round P d mode x) = status x"
  "delta_t (trim_round P d mode x) = delta_t x"
  by (simp_all add: trim_round_def split: prod.splits)

lemma trim_iterate_keeps_inputs:
  "aircraft (snd (trim_iterate P d mode n x)) = aircraft x \<and>
   flight_condition (snd (trim_iterate P d mode n x)) = flight_condition x \<and>
   status (snd (trim_iterate P d mode n x)) = status x"
  by (induction n arbitrary: x) (simp_all add: Let_def)

lemma do_trim_keeps_inputs:
  "aircraft (snd (exec_do_trim P mode x)) = aircraft x \<and>
   flight_condition (snd (exec_do_trim P mode x)) = flight_condition x \<and>
   status (snd (exec_do_trim P mode x)) = status x"
  by (simp add: exec_do_trim_def trim_iterate_keeps_inputs split: option.splits)

lemma perform_keeps_inputs:
  "aircraft (perform (native P) c x) = aircraft x \<and>
   flight_condition (perform (native P) c x) = flight_condition x"
  by (cases c)
     (simp_all add: exec_run_def exec_hold_def exec_resume_def exec_set_property_def
        do_trim_keeps_inputs split: option.splits)

lemma perform_all_keeps_inputs:
  "aircraft (perform_all (native P) cs x) = aircraft x \<and>
   flight_condition (perform_all (native P) cs x) = flight_condition x"
  by (induction cs arbitrary: x) (simp_all add: perform_keeps_inputs)

lemma run_ic_after_reset:
  assumes "aircraft y = Some d"
    and "solve_ic P d (read_condition P (bus y) (flight_condition y)) = Some sv"
  shows "fst (exec_run_ic P (exec_reset P mode y)) \<and>
         state_vector (snd (exec_run_ic P (exec_reset P mode y))) = sv \<and>
         status (snd (exec_run_ic P (exec_reset P mode y))) = Initialized"
  using assms by (simp add: exec_run_ic_def exec_reset_def)

lemma run_ic_refused_when_stepping:
  "status y = Running \<or> status y = Held \<Longrightarrow> exec_run_ic P y = (False, y)"
  by (auto simp: exec_run_ic_def)

text \<open>
  C5.  Let an executive load a definition and apply the initial condition, both with
  success, which gives the state vector of \<open>x2\<close>.  Let \<open>y\<close> be an executive with the
  same definition, in any state, whose bus holds the flight condition that the bus held
  at that first \<^verbatim>\<open>runIC\<close>: these are the identical inputs.  Then
  \<^verbatim>\<open>resetToInitialConditions\<close> followed by \<^verbatim>\<open>runIC\<close> succeeds on \<open>y\<close> and gives the
  state vector of \<open>x2\<close> again.  The reset is needed: once \<open>y\<close> is Running or Held,
  \<^verbatim>\<open>runIC\<close> alone is refused.  Every executive reached from \<open>x2\<close> by calls of \<^verbatim>\<open>run\<close>,
  \<^verbatim>\<open>hold\<close>, \<^verbatim>\<open>resume\<close>, \<^verbatim>\<open>setPropertyValue\<close> and \<^verbatim>\<open>doTrim\<close> has the same definition,
  and the wrapper's \<^verbatim>\<open>reset()\<close> is that reset with mode 0.
\<close>

theorem reset_then_run_ic_reproduces_state_vector:
  assumes "fdm_loadModel (native P) name add x0 = (True, x1)"
    and "fdm_runIC (native P) x1 = (True, x2)"
    and "aircraft y = aircraft x2"
    and "read_condition P (bus y) (flight_condition y)
           = read_condition P (bus x1) (flight_condition x1)"
  shows
    "fst (fdm_runIC (native P) (fdm_resetToInitialConditions (native P) mode y)) \<and>
     state_vector (snd (fdm_runIC (native P) (fdm_resetToInitialConditions (native P) mode y)))
       = state_vector x2 \<and>
     (status y = Running \<or> status y = Held \<longrightarrow> fdm_runIC (native P) y = (False, y)) \<and>
     aircraft (perform_all (native P) calls x2) = aircraft x2 \<and>
     (fdm j = Some y \<longrightarrow>
        reset (native P) j = (Inr (), j\<lparr>fdm := Some (fdm_resetToInitialConditions (native P) 0 y)\<rparr>))"
proof -
  from assms(1) obtain d where d: "aircraft x1 = Some d"
    by (auto simp: exec_load_def split: option.splits)
  with assms(2) obtain sv
    where sv: "solve_ic P d (read_condition P (bus x1) (flight_condition x1)) = Some sv"
      and x2: "x2 = x1\<lparr>state_vector := sv, status := Initialized\<rparr>"
    by (auto simp: exec_run_ic_def split: option.splits if_splits)
  have in2: "aircraft x2 = Some d" "state_vector x2 = sv"
    using d x2 by simp_all
  have "aircraft y = Some d"
    using assms(3) in2 by simp
  moreover have "solve_ic P d (read_condition P (bus y) (flight_condition y)) = Some sv"
    using assms(4) sv by simp
  ultimately have "fst (exec_run_ic P (exec_reset P mode y)) \<and>
      state_vector (snd (exec_run_ic P (exec_reset P mode y))) = state_vector x2"
    using run_ic_after_reset [of y d P sv mode] in2 by simp
  moreover have "aircraft (perform_all (native P) calls x2) = aircraft x2"
    using perform_all_keeps_inputs [of P calls x2] by simp
  ultimately show ?thesis
    using run_ic_refused_when_stepping [of y P] by (simp add: reset_def)
qed

theorem reset_then_run_ic_reproduces_state_vector_witness:
  "state_vector demo_ready = 5000 \<and>
   state_vector demo_flown = 5000 + 1 / 60 \<and>
   fdm_runIC (native demo) demo_flown = (False, demo_flown) \<and>
   state_vector (snd (fdm_runIC (native demo)
       (fdm_resetToInitialConditions (native demo) 0 demo_flown))) = 5000 \<and>
   state_vector (snd (fdm_runIC (native demo)
       (fdm_resetToInitialConditions (native demo) 0
          (exec_set_property ''ic/h-sl-ft'' 10000 demo_flown)))) = 10000 \<and>
   reset (native demo) (demo_instance demo_flown)
     = (Inr (), demo_instance (fdm_resetToInitialConditions (native demo) 0 demo_flown))"
proof -
  have ready: "demo_ready =
      \<lparr> status = Initialized, aircraft = Some 1, flight_condition = 5000, state_vector = 5000,
        bus = Map.empty, sim_time = 0, delta_t = 1 / 120 \<rparr>"
    by (simp add: demo_ready_def exec_run_ic_def exec_load_def demo_def demo_executive_def
        exec_new_def)
  have flown: "demo_flown =
      \<lparr> status = Held, aircraft = Some 1, flight_condition = 5000,
        state_vector = 5000 + 1 / 60, bus = [''fcs/elevator-cmd-norm'' \<mapsto> 0.5],
        sim_time = 1 / 60, delta_t = 1 / 120 \<rparr>"
    by (simp add: demo_flown_def ready exec_run_def exec_hold_def exec_set_property_def
        bus_set_def frame_def frame_models_def demo_def)
  have a: "fdm_loadModel (native demo) ''c172x'' True demo_executive
             = (True, snd (exec_load demo ''c172x'' True demo_executive))"
    by (simp add: exec_load_def demo_def)
  have b: "fdm_runIC (native demo) (snd (exec_load demo ''c172x'' True demo_executive))
             = (True, demo_ready)"
    by (simp add: demo_ready_def exec_run_ic_def exec_load_def demo_def demo_executive_def
        exec_new_def)
  have c: "aircraft demo_flown = aircraft demo_ready"
    by (simp add: flown ready)
  have d: "read_condition demo (bus demo_flown) (flight_condition demo_flown)
      = read_condition demo (bus (snd (exec_load demo ''c172x'' True demo_executive)))
          (flight_condition (snd (exec_load demo ''c172x'' True demo_executive)))"
    by (simp add: flown exec_load_def demo_def demo_executive_def exec_new_def)
  have s: "status demo_flown = Running \<or> status demo_flown = Held"
    by (simp add: flown)
  have f: "fdm (demo_instance demo_flown) = Some demo_flown"
    by (simp add: demo_instance_def)
  note t = reset_then_run_ic_reproduces_state_vector [OF a b c d, of 0 _ "demo_instance demo_flown"]
  from t s have 1: "fdm_runIC (native demo) demo_flown = (False, demo_flown)"
    by blast
  from t have "state_vector (snd (fdm_runIC (native demo)
       (fdm_resetToInitialConditions (native demo) 0 demo_flown))) = state_vector demo_ready"
    by blast
  then have 2: "state_vector (snd (fdm_runIC (native demo)
       (fdm_resetToInitialConditions (native demo) 0 demo_flown))) = 5000"
    by (simp add: ready)
  have 3: "state_vector (snd (fdm_runIC (native demo)
       (fdm_resetToInitialConditions (native demo) 0
          (exec_set_property ''ic/h-sl-ft'' 10000 demo_flown)))) = 10000"
    by (simp add: flown exec_run_ic_def exec_reset_def exec_set_property_def bus_set_def demo_def)
  from t f have "reset (native demo) (demo_instance demo_flown)
     = (Inr (), (demo_instance demo_flown)
          \<lparr>fdm := Some (fdm_resetToInitialConditions (native demo) 0 demo_flown)\<rparr>)"
    by blast
  then have 4: "reset (native demo) (demo_instance demo_flown)
     = (Inr (), demo_instance (fdm_resetToInitialConditions (native demo) 0 demo_flown))"
    by (simp add: demo_instance_def)
  have 5: "state_vector demo_ready = 5000" "state_vector demo_flown = 5000 + 1 / 60"
    by (simp_all add: ready flown)
  from 5 1 2 3 4 show ?thesis
    by blast
qed

subsection \<open>Trim\<close>

lemma trim_iterate_fails:
  "(\<forall>k. 1 \<le> k \<and> k \<le> n \<longrightarrow> \<not> trim_converged P mode (trim_rounds P d mode k x)) \<Longrightarrow>
   trim_iterate P d mode n x = (Inl TrimFailure, trim_rounds P d mode n x)"
proof (induction n arbitrary: x)
  case 0
  show ?case by simp
next
  case (Suc n)
  from Suc.prems [rule_format, of 1] have first: "\<not> trim_converged P mode (trim_round P d mode x)"
    by simp
  have "\<forall>k. 1 \<le> k \<and> k \<le> n \<longrightarrow>
          \<not> trim_converged P mode (trim_rounds P d mode k (trim_round P d mode x))"
  proof (intro allI impI)
    fix k assume "1 \<le> k \<and> k \<le> n"
    with Suc.prems [rule_format, of "Suc k"]
    show "\<not> trim_converged P mode (trim_rounds P d mode k (trim_round P d mode x))" by simp
  qed
  from Suc.IH [OF this] first show ?case by (simp add: Let_def)
qed

lemma trim_iterate_succeeds:
  "1 \<le> k \<Longrightarrow> k \<le> n \<Longrightarrow> trim_converged P mode (trim_rounds P d mode k x) \<Longrightarrow>
   (\<forall>i. 1 \<le> i \<and> i < k \<longrightarrow> \<not> trim_converged P mode (trim_rounds P d mode i x)) \<Longrightarrow>
   trim_iterate P d mode n x = (Inr (), trim_rounds P d mode k x)"
proof (induction n arbitrary: x k)
  case 0
  then show ?case by simp
next
  case (Suc n)
  show ?case
  proof (cases "k = 1")
    case True
    with Suc.prems(3) show ?thesis by (simp add: Let_def)
  next
    case False
    with Suc.prems(1) obtain k' where k': "k = Suc k'" "1 \<le> k'"
      by (cases k) auto
    from Suc.prems(4) [rule_format, of 1] k'
    have first: "\<not> trim_converged P mode (trim_round P d mode x)" by simp
    have rest: "\<forall>i. 1 \<le> i \<and> i < k' \<longrightarrow>
          \<not> trim_converged P mode (trim_rounds P d mode i (trim_round P d mode x))"
    proof (intro allI impI)
      fix i assume "1 \<le> i \<and> i < k'"
      with Suc.prems(4) [rule_format, of "Suc i"] k'
      show "\<not> trim_converged P mode (trim_rounds P d mode i (trim_round P d mode x))" by simp
    qed
    have "trim_iterate P d mode n (trim_round P d mode x)
            = (Inr (), trim_rounds P d mode k' (trim_round P d mode x))"
      using Suc.IH [of k' "trim_round P d mode x"] k' Suc.prems(2,3) rest by simp
    with first k' show ?thesis by (simp add: Let_def)
  qed
qed

text \<open>
  C2.  For every trim mode, \<^verbatim>\<open>doTrim(mode)\<close> returns: with success, or with the trim
  failure, and nothing else.  If the residuals are within tolerance after none of the
  rounds up to the iteration cap, the call reports the failure, after exactly that many
  rounds.  If they are within tolerance after some round within the cap, the call
  succeeds after the first such round.  Either way the status, the loaded definition
  and the flight condition are as before the call, so the caller can try again.
\<close>

theorem do_trim_succeeds_or_reports_failure:
  "(fst (fdm_doTrim (native P) mode x) = Inr () \<or>
    fst (fdm_doTrim (native P) mode x) = Inl TrimFailure) \<and>
   (aircraft x = Some d \<and>
    (\<forall>k. 1 \<le> k \<and> k \<le> trim_iteration_cap P \<longrightarrow>
        \<not> trim_converged P mode (trim_rounds P d mode k x)) \<longrightarrow>
      fdm_doTrim (native P) mode x
        = (Inl TrimFailure, trim_rounds P d mode (trim_iteration_cap P) x)) \<and>
   (aircraft x = Some d \<and> 1 \<le> k \<and> k \<le> trim_iteration_cap P \<and>
    trim_converged P mode (trim_rounds P d mode k x) \<and>
    (\<forall>i. 1 \<le> i \<and> i < k \<longrightarrow> \<not> trim_converged P mode (trim_rounds P d mode i x)) \<longrightarrow>
      fdm_doTrim (native P) mode x = (Inr (), trim_rounds P d mode k x)) \<and>
   status (snd (fdm_doTrim (native P) mode x)) = status x \<and>
   aircraft (snd (fdm_doTrim (native P) mode x)) = aircraft x \<and>
   flight_condition (snd (fdm_doTrim (native P) mode x)) = flight_condition x"
proof -
  have 1: "fst (exec_do_trim P mode x) = Inr () \<or> fst (exec_do_trim P mode x) = Inl TrimFailure"
    by (cases "fst (exec_do_trim P mode x)") (auto intro: trim_exception.exhaust)
  have 2: "exec_do_trim P mode x = (Inl TrimFailure, trim_rounds P d mode (trim_iteration_cap P) x)"
    if "aircraft x = Some d"
      "\<forall>k. 1 \<le> k \<and> k \<le> trim_iteration_cap P \<longrightarrow>
          \<not> trim_converged P mode (trim_rounds P d mode k x)"
    using that by (simp add: exec_do_trim_def trim_iterate_fails)
  have 3: "exec_do_trim P mode x = (Inr (), trim_rounds P d mode k x)"
    if "aircraft x = Some d" "1 \<le> k" "k \<le> trim_iteration_cap P"
      "trim_converged P mode (trim_rounds P d mode k x)"
      "\<forall>i. 1 \<le> i \<and> i < k \<longrightarrow> \<not> trim_converged P mode (trim_rounds P d mode i x)"
    using that by (simp add: exec_do_trim_def trim_iterate_succeeds)
  from 1 2 3 do_trim_keeps_inputs [of P mode x] show ?thesis
    by (simp del: One_nat_def)
qed

theorem do_trim_succeeds_or_reports_failure_witness:
  "fdm_doTrim (native demo) 0 demo_ready = (Inl TrimFailure, trim_rounds demo 1 0 3 demo_ready) \<and>
   fdm_doTrim (native demo) 0 demo_low = (Inr (), trim_rounds demo 1 0 3 demo_low) \<and>
   status (snd (fdm_doTrim (native demo) 0 demo_ready)) = Initialized"
proof -
  have ready: "demo_ready =
      \<lparr> status = Initialized, aircraft = Some 1, flight_condition = 5000, state_vector = 5000,
        bus = Map.empty, sim_time = 0, delta_t = 1 / 120 \<rparr>"
    by (simp add: demo_ready_def exec_run_ic_def exec_load_def demo_def demo_executive_def
        exec_new_def)
  have low: "demo_low =
      \<lparr> status = Initialized, aircraft = Some 1, flight_condition = 4, state_vector = 4,
        bus = Map.empty, sim_time = 0, delta_t = 1 / 120 \<rparr>"
    by (simp add: demo_low_def exec_run_ic_def exec_load_def demo_def exec_new_def)
  have three: "k = 1 \<or> k = 2 \<or> k = 3" if "1 \<le> k \<and> k \<le> trim_iteration_cap demo" for k
    using that by (auto simp: demo_def)
  have r1: "\<not> trim_converged demo 0 (trim_rounds demo 1 0 1 demo_ready)"
    and r2: "\<not> trim_converged demo 0 (trim_rounds demo 1 0 2 demo_ready)"
    and r3: "\<not> trim_converged demo 0 (trim_rounds demo 1 0 3 demo_ready)"
    by (simp_all add: ready numeral_2_eq_2 numeral_3_eq_3 trim_round_def trim_converged_def
        frame_def frame_models_def demo_def)
  have never: "\<forall>k. 1 \<le> k \<and> k \<le> trim_iteration_cap demo \<longrightarrow>
      \<not> trim_converged demo 0 (trim_rounds demo 1 0 k demo_ready)"
    using three r1 r2 r3 by blast
  have l1: "\<not> trim_converged demo 0 (trim_rounds demo 1 0 1 demo_low)"
    and l2: "\<not> trim_converged demo 0 (trim_rounds demo 1 0 2 demo_low)"
    and l3: "trim_converged demo 0 (trim_rounds demo 1 0 3 demo_low)"
    by (simp_all add: low numeral_2_eq_2 numeral_3_eq_3 trim_round_def trim_converged_def
        frame_def frame_models_def demo_def)
  have before: "\<forall>i. 1 \<le> i \<and> i < 3 \<longrightarrow> \<not> trim_converged demo 0 (trim_rounds demo 1 0 i demo_low)"
  proof (intro allI impI)
    fix i :: nat assume "1 \<le> i \<and> i < 3"
    then have "i = 1 \<or> i = 2" by auto
    with l1 l2 show "\<not> trim_converged demo 0 (trim_rounds demo 1 0 i demo_low)" by blast
  qed
  have cap: "trim_iteration_cap demo = 3" by (simp add: demo_def)
  have a1: "aircraft demo_ready = Some 1" by (simp add: ready)
  have a2: "aircraft demo_low = Some 1" by (simp add: low)
  have s: "status demo_ready = Initialized" by (simp add: ready)
  note t1 = do_trim_succeeds_or_reports_failure [of demo 0 demo_ready 1 3]
  note t2 = do_trim_succeeds_or_reports_failure [of demo 0 demo_low 1 3]
  from t1 a1 never cap have "fdm_doTrim (native demo) 0 demo_ready
      = (Inl TrimFailure, trim_rounds demo 1 0 3 demo_ready)"
    by metis
  moreover from t2 a2 l3 before cap have "fdm_doTrim (native demo) 0 demo_low
      = (Inr (), trim_rounds demo 1 0 3 demo_low)"
    by (metis le_refl one_le_numeral)
  moreover from t1 s have "status (snd (fdm_doTrim (native demo) 0 demo_ready)) = Initialized"
    by metis
  ultimately show ?thesis by blast
qed

end
